theory Spec2Isabelle
  imports Main "HOL-Library.Word" "HOL-Library.Sublist"
begin

unbundle bit_operations_syntax

section \<open>JavaScript strings\<close>

text \<open>
  A JavaScript string is a sequence of UTF-16 code units. A code unit is modelled as an
  integer (from 0 to 65535 in every string the program can meet), so that the en dash
  of the word-count message (U+2013), the apostrophe of the padding clause (U+2019) and
  the \<open>\uXXXX\<close> escapes of JSON are all representable. \<open>str\<close> turns an
  ASCII literal into such a string.
\<close>

type_synonym jsstr = "int list"

definition str :: "string \<Rightarrow> jsstr" where
  "str s = map of_char s"

text \<open>
  The white space of \<open>String.prototype.trim\<close> and of the regular expression
  class \<open>\s\<close> (both: WhiteSpace and LineTerminator of ECMAScript).
\<close>

definition is_ws :: "int \<Rightarrow> bool" where
  "is_ws c \<longleftrightarrow>
     c = 9 \<or> c = 10 \<or> c = 11 \<or> c = 12 \<or> c = 13 \<or> c = 32 \<or> c = 160 \<or> c = 5760
     \<or> (8192 \<le> c \<and> c \<le> 8202) \<or> c = 8232 \<or> c = 8233 \<or> c = 8239 \<or> c = 8287
     \<or> c = 12288 \<or> c = 65279"

definition trim :: "jsstr \<Rightarrow> jsstr" where
  "trim s = rev (dropWhile is_ws (rev (dropWhile is_ws s)))"

text \<open>
  \<open>toLowerCase\<close>: the lower-case mapping of every code unit that lies in, or is
  mapped into, Basic Latin and Latin-1 (U+0130 becomes two code units, the Kelvin and
  Angstrom signs become k and a-ring). Cased letters of other scripts, whose lower-case
  forms lie beyond U+00FF, are left as they are: every pattern the program compares a
  lower-cased text with is ASCII, and such letters are neither ASCII before nor after
  the mapping.
\<close>

definition lower_unit :: "int \<Rightarrow> jsstr" where
  "lower_unit c =
     (if 65 \<le> c \<and> c \<le> 90 then [c + 32]
      else if 192 \<le> c \<and> c \<le> 222 \<and> c \<noteq> 215 then [c + 32]
      else if c = 304 then [105, 775]
      else if c = 376 then [255]
      else if c = 7838 then [223]
      else if c = 8490 then [107]
      else if c = 8491 then [229]
      else [c])"

definition toLowerCase :: "jsstr \<Rightarrow> jsstr" where
  "toLowerCase s = concat (map lower_unit s)"

text \<open>\<open>s.startsWith(p)\<close> is \<open>prefix p s\<close>; \<open>s.includes(p)\<close>:\<close>

fun js_includes :: "jsstr \<Rightarrow> jsstr \<Rightarrow> bool" where
  "js_includes [] p = (p = [])"
| "js_includes (c # cs) p = (prefix p (c # cs) \<or> js_includes cs p)"

text \<open>\<open>xs.join(sep)\<close>:\<close>

fun join :: "jsstr \<Rightarrow> jsstr list \<Rightarrow> jsstr" where
  "join sep [] = []"
| "join sep [x] = x"
| "join sep (x # y # ys) = x @ sep @ join sep (y # ys)"

text \<open>
  \<open>s.split(/\s+/)\<close>: the pieces between the maximal runs of white space; a run at
  either end leaves an empty piece there, and the empty string gives one empty piece.
\<close>

fun split_ws :: "jsstr \<Rightarrow> jsstr list" where
  "split_ws [] = [[]]"
| "split_ws (c # cs) =
     (if is_ws c then (if cs \<noteq> [] \<and> is_ws (hd cs) then split_ws cs else [] # split_ws cs)
      else (case split_ws cs of [] \<Rightarrow> [[c]] | w # ws \<Rightarrow> (c # w) # ws))"

text \<open>\<open>xs.filter(Boolean)\<close> on a list of strings drops the empty ones.\<close>

definition filter_Boolean :: "jsstr list \<Rightarrow> jsstr list" where
  "filter_Boolean xs = filter (\<lambda>s. s \<noteq> []) xs"

text \<open>
  \<open>s.split(/(?<=[.!?])\s+/)\<close>: a separator is a maximal run of white space that
  directly follows one of the terminal marks. The mode records what precedes the
  current position.
\<close>

definition is_terminal :: "int \<Rightarrow> bool" where
  "is_terminal c \<longleftrightarrow> c = 46 \<or> c = 33 \<or> c = 63"

datatype split_mode = Plain | AfterTerminal | InSeparator

fun split_sentences_from :: "split_mode \<Rightarrow> jsstr \<Rightarrow> jsstr list" where
  "split_sentences_from m [] = [[]]"
| "split_sentences_from m (c # cs) =
     (if is_ws c \<and> m = AfterTerminal then [] # split_sentences_from InSeparator cs
      else if is_ws c \<and> m = InSeparator then split_sentences_from InSeparator cs
      else (case split_sentences_from (if is_terminal c then AfterTerminal else Plain) cs of
              [] \<Rightarrow> [[c]]
            | w # ws \<Rightarrow> (c # w) # ws))"

definition split_sentences :: "jsstr \<Rightarrow> jsstr list" where
  "split_sentences s = split_sentences_from Plain s"

text \<open>The decimal numeral of a template literal \<open>${n}\<close>, for a count \<open>n\<close>.\<close>

fun decimal :: "nat \<Rightarrow> jsstr" where
  "decimal n = (if n < 10 then [48 + int n] else decimal (n div 10) @ [48 + int (n mod 10)])"

declare decimal.simps [simp del]

section \<open>validate.ts\<close>

datatype Role = Past | Present | Future

text \<open>
  Every \<open>throw new Error(...)\<close> of the program is a value of this type; \<open>message\<close>
  below gives the text of the error, which the orchestrator inspects.
\<close>

datatype error =
    UnsupportedIdKey jsstr
  | MeaningFileError jsstr
  | OllamaError jsstr
  | NotJson jsstr
  | InvalidJson jsstr
  | BadShape
  | ExtraKeys "jsstr list"
  | EmptyText
  | WordCountOutOfRange nat nat nat
  | SentenceCountMismatch nat nat
  | ImperativeCoaching jsstr
  | NotDefined jsstr
  | GenerationExhausted "jsstr option"

definition DISCOURAGED_PHRASES :: "jsstr list" where
  "DISCOURAGED_PHRASES = map str
     [''be mindful'', ''reflect'', ''moving forward'', ''remember'', ''this is a time'',
      ''appears to'', ''signify'', ''calling'', ''ready for you to'', ''let the path unfold'',
      ''now it'' @ [CHR 0x27] @ ''s time'', ''the card suggests'', ''the card indicates'',
      ''this card appears'', ''this card signifies'']"

definition wordCount :: "jsstr \<Rightarrow> nat" where
  "wordCount t = length (filter_Boolean (split_ws (trim t)))"

text \<open>\<open>/[.!?](?=\s|$)/g\<close>: terminal marks followed by white space or the end.\<close>

fun count_sentence_ends :: "jsstr \<Rightarrow> nat" where
  "count_sentence_ends [] = 0"
| "count_sentence_ends (c # cs) =
     (if is_terminal c \<and> (cs = [] \<or> is_ws (hd cs)) then 1 else 0) + count_sentence_ends cs"

definition sentenceCount :: "jsstr \<Rightarrow> nat" where
  "sentenceCount t = count_sentence_ends (trim t)"

definition lintDiscouragedPhrases :: "jsstr \<Rightarrow> jsstr list" where
  "lintDiscouragedPhrases t = (let l = toLowerCase t in filter (\<lambda>p. js_includes l p) DISCOURAGED_PHRASES)"

definition DISCOURAGED_IMPERATIVE_STARTS :: "jsstr list" where
  "DISCOURAGED_IMPERATIVE_STARTS = map str
     [''take '', ''try '', ''remember'', ''focus '', ''reflect'', ''act '', ''choose '',
      ''commit '', ''consider '', ''embrace '', ''let '', ''allow '']"

text \<open>
  The sentences \<open>validateNoImperativeCoaching\<close> looks at, and the first banned start
  of a sentence, in the order of the two nested loops.
\<close>

definition coaching_sentences :: "jsstr \<Rightarrow> jsstr list" where
  "coaching_sentences t = filter_Boolean (map (\<lambda>s. toLowerCase (trim s)) (split_sentences t))"

fun first_imperative_start :: "jsstr list \<Rightarrow> jsstr option" where
  "first_imperative_start [] = None"
| "first_imperative_start (s # ss) =
     (case find (\<lambda>start. prefix start s) DISCOURAGED_IMPERATIVE_STARTS of
        Some start \<Rightarrow> Some start
      | None \<Rightarrow> first_imperative_start ss)"

definition validateNoImperativeCoaching :: "jsstr \<Rightarrow> error + unit" where
  "validateNoImperativeCoaching t =
     (case first_imperative_start (coaching_sentences t) of
        Some start \<Rightarrow> Inl (ImperativeCoaching (trim start))
      | None \<Rightarrow> Inr ())"

text \<open>
  \<open>ValidateOptions\<close>: each field may be absent (\<open>None\<close>), and then takes its
  default. The counts are natural numbers.
\<close>

record ValidateOptions =
  minWords :: "nat option"
  maxWords :: "nat option"
  requireSentenceCount :: "nat option"
  enforceNoImperatives :: "bool option"

definition opt_minWords :: "ValidateOptions \<Rightarrow> nat" where
  "opt_minWords opts = (case minWords opts of None \<Rightarrow> 75 | Some n \<Rightarrow> n)"

definition opt_maxWords :: "ValidateOptions \<Rightarrow> nat" where
  "opt_maxWords opts = (case maxWords opts of None \<Rightarrow> 150 | Some n \<Rightarrow> n)"

definition opt_enforceNoImperatives :: "ValidateOptions \<Rightarrow> bool" where
  "opt_enforceNoImperatives opts = (case enforceNoImperatives opts of None \<Rightarrow> True | Some b \<Rightarrow> b)"

definition validateText :: "jsstr \<Rightarrow> Role \<Rightarrow> ValidateOptions \<Rightarrow> error + unit" where
  "validateText t role opts =
     (let cleaned = trim t in
      if cleaned = [] then Inl EmptyText
      else
        let wc = wordCount cleaned in
        if wc < opt_minWords opts \<or> wc > opt_maxWords opts
        then Inl (WordCountOutOfRange wc (opt_minWords opts) (opt_maxWords opts))
        else
          (case (case requireSentenceCount opts of
                   None \<Rightarrow> Inr ()
                 | Some n \<Rightarrow>
                     (let sc = sentenceCount cleaned in
                      if sc \<noteq> n then Inl (SentenceCountMismatch sc n) else Inr ())) of
             Inl e \<Rightarrow> Inl e
           | Inr _ \<Rightarrow>
               if opt_enforceNoImperatives opts then validateNoImperativeCoaching cleaned
               else Inr ()))"

section \<open>roles.ts\<close>

definition roleFromIdKey :: "jsstr \<Rightarrow> error + Role" where
  "roleFromIdKey idKey =
     (let k = toLowerCase idKey in
      if prefix (str ''past-'') k then Inr Past
      else if prefix (str ''present-'') k then Inr Present
      else if prefix (str ''future-'') k then Inr Future
      else Inl (UnsupportedIdKey idKey))"

section \<open>JSON.parse\<close>

text \<open>
  \<open>JSON.parse\<close> is a built-in of the language. It is modelled by a scanner and a
  stack parser for the JSON grammar of ECMA-404, each one pass over its input. The
  value of a number is never looked at by the program: a number keeps its text. An
  input that is not JSON gives \<open>None\<close> (the built-in throws a SyntaxError).
\<close>

datatype json =
    JNull
  | JBool bool
  | JNumber jsstr
  | JString jsstr
  | JArray "json list"
  | JObject "(jsstr \<times> json) list"

datatype token =
    TLBrace | TRBrace | TLBracket | TRBracket | TColon | TComma
  | TString jsstr | TNumber jsstr | TLiteral json

datatype lex_mode =
    Between
  | InString jsstr
  | InEscape jsstr
  | InUnicode jsstr "int list"
  | InNumber jsstr
  | InLiteral jsstr json

definition is_digit :: "int \<Rightarrow> bool" where
  "is_digit c \<longleftrightarrow> 48 \<le> c \<and> c \<le> 57"

text \<open>The number grammar: \<open>-?(0|[1-9][0-9]*)(\.[0-9]+)?([eE][+-]?[0-9]+)?\<close>.\<close>

definition number_exponent :: "jsstr \<Rightarrow> bool" where
  "number_exponent s =
     (case s of
        [] \<Rightarrow> True
      | c # r \<Rightarrow>
          (c = 101 \<or> c = 69) \<and>
          (let ds = (case r of [] \<Rightarrow> [] | d # r' \<Rightarrow> if d = 43 \<or> d = 45 then r' else r)
           in ds \<noteq> [] \<and> list_all is_digit ds))"

definition number_fraction :: "jsstr \<Rightarrow> bool" where
  "number_fraction s =
     (case s of
        [] \<Rightarrow> True
      | c # r \<Rightarrow>
          if c = 46 then takeWhile is_digit r \<noteq> [] \<and> number_exponent (dropWhile is_digit r)
          else number_exponent s)"

definition valid_number :: "jsstr \<Rightarrow> bool" where
  "valid_number s =
     (case (case s of [] \<Rightarrow> [] | c # r \<Rightarrow> if c = 45 then r else s) of
        [] \<Rightarrow> False
      | c # r \<Rightarrow>
          if c = 48 then number_fraction r
          else if 49 \<le> c \<and> c \<le> 57 then number_fraction (dropWhile is_digit r)
          else False)"

definition is_number_char :: "int \<Rightarrow> bool" where
  "is_number_char c \<longleftrightarrow> is_digit c \<or> c = 45 \<or> c = 43 \<or> c = 46 \<or> c = 101 \<or> c = 69"

definition hex_value :: "int \<Rightarrow> int option" where
  "hex_value c =
     (if 48 \<le> c \<and> c \<le> 57 then Some (c - 48)
      else if 97 \<le> c \<and> c \<le> 102 then Some (c - 87)
      else if 65 \<le> c \<and> c \<le> 70 then Some (c - 55)
      else None)"

text \<open>The character after a backslash, other than \<open>u\<close>.\<close>

definition simple_escape :: "int \<Rightarrow> int option" where
  "simple_escape c =
     (if c = 34 \<or> c = 92 \<or> c = 47 then Some c
      else if c = 98 then Some 8
      else if c = 102 then Some 12
      else if c = 110 then Some 10
      else if c = 114 then Some 13
      else if c = 116 then Some 9
      else None)"

text \<open>
  A character met between two tokens: the tokens it completes and the mode it opens.
  Only tab, line feed, carriage return and space are JSON white space.
\<close>

definition start_char :: "int \<Rightarrow> (token list \<times> lex_mode) option" where
  "start_char c =
     (if c = 9 \<or> c = 10 \<or> c = 13 \<or> c = 32 then Some ([], Between)
      else if c = 123 then Some ([TLBrace], Between)
      else if c = 125 then Some ([TRBrace], Between)
      else if c = 91 then Some ([TLBracket], Between)
      else if c = 93 then Some ([TRBracket], Between)
      else if c = 58 then Some ([TColon], Between)
      else if c = 44 then Some ([TComma], Between)
      else if c = 34 then Some ([], InString [])
      else if c = 45 \<or> is_digit c then Some ([], InNumber [c])
      else if c = 116 then Some ([], InLiteral (str ''rue'') (JBool True))
      else if c = 102 then Some ([], InLiteral (str ''alse'') (JBool False))
      else if c = 110 then Some ([], InLiteral (str ''ull'') JNull)
      else None)"

fun lex :: "lex_mode \<Rightarrow> jsstr \<Rightarrow> token list option" where
  "lex Between [] = Some []"
| "lex (InNumber acc) [] = (if valid_number (rev acc) then Some [TNumber (rev acc)] else None)"
| "lex (InString acc) [] = None"
| "lex (InEscape acc) [] = None"
| "lex (InUnicode acc ds) [] = None"
| "lex (InLiteral rest v) [] = None"
| "lex Between (c # cs) =
     (case start_char c of
        None \<Rightarrow> None
      | Some (ts, m) \<Rightarrow> map_option (\<lambda>r. ts @ r) (lex m cs))"
| "lex (InString acc) (c # cs) =
     (if c = 34 then map_option (\<lambda>r. TString (rev acc) # r) (lex Between cs)
      else if c = 92 then lex (InEscape acc) cs
      else if c < 32 then None
      else lex (InString (c # acc)) cs)"
| "lex (InEscape acc) (c # cs) =
     (case simple_escape c of
        Some d \<Rightarrow> lex (InString (d # acc)) cs
      | None \<Rightarrow> if c = 117 then lex (InUnicode acc []) cs else None)"
| "lex (InUnicode acc ds) (c # cs) =
     (case hex_value c of
        None \<Rightarrow> None
      | Some v \<Rightarrow>
          if length ds = 3
          then lex (InString (foldl (\<lambda>a d. 16 * a + d) 0 (ds @ [v]) # acc)) cs
          else lex (InUnicode acc (ds @ [v])) cs)"
| "lex (InNumber acc) (c # cs) =
     (if is_number_char c then lex (InNumber (c # acc)) cs
      else if valid_number (rev acc)
      then (case start_char c of
              None \<Rightarrow> None
            | Some (ts, m) \<Rightarrow> map_option (\<lambda>r. TNumber (rev acc) # ts @ r) (lex m cs))
      else None)"
| "lex (InLiteral rest v) (c # cs) =
     (case rest of
        [] \<Rightarrow> None
      | r # rs \<Rightarrow>
          if c \<noteq> r then None
          else if rs = [] then map_option (\<lambda>r. TLiteral v # r) (lex Between cs)
          else lex (InLiteral rs v) cs)"

text \<open>
  The parser keeps the open arrays and objects on a stack: the elements or members
  read so far, latest first, and for an object the key whose value is being read.
\<close>

datatype frame = InArray "json list" | InObject "(jsstr \<times> json) list" jsstr

datatype parse_state =
    PValue | PValueOrEnd | PKeyOrEnd | PKey | PColon jsstr | PAfter | PDone json

definition deliver :: "json \<Rightarrow> frame list \<Rightarrow> parse_state \<times> frame list" where
  "deliver v stack =
     (case stack of
        [] \<Rightarrow> (PDone v, [])
      | InArray es # st \<Rightarrow> (PAfter, InArray (v # es) # st)
      | InObject ms k # st \<Rightarrow> (PAfter, InObject ((k, v) # ms) k # st))"

definition open_value :: "token \<Rightarrow> frame list \<Rightarrow> (parse_state \<times> frame list) option" where
  "open_value t stack =
     (case t of
        TString s \<Rightarrow> Some (deliver (JString s) stack)
      | TNumber n \<Rightarrow> Some (deliver (JNumber n) stack)
      | TLiteral v \<Rightarrow> Some (deliver v stack)
      | TLBrace \<Rightarrow> Some (PKeyOrEnd, InObject [] [] # stack)
      | TLBracket \<Rightarrow> Some (PValueOrEnd, InArray [] # stack)
      | _ \<Rightarrow> None)"

definition close_array :: "frame list \<Rightarrow> (parse_state \<times> frame list) option" where
  "close_array stack =
     (case stack of InArray es # st \<Rightarrow> Some (deliver (JArray (rev es)) st) | _ \<Rightarrow> None)"

definition close_object :: "frame list \<Rightarrow> (parse_state \<times> frame list) option" where
  "close_object stack =
     (case stack of InObject ms k # st \<Rightarrow> Some (deliver (JObject (rev ms)) st) | _ \<Rightarrow> None)"

definition parse_step :: "parse_state \<times> frame list \<Rightarrow> token \<Rightarrow> (parse_state \<times> frame list) option" where
  "parse_step ps t =
     (case ps of
        (PValue, stack) \<Rightarrow> open_value t stack
      | (PValueOrEnd, stack) \<Rightarrow> (if t = TRBracket then close_array stack else open_value t stack)
      | (PKeyOrEnd, stack) \<Rightarrow>
          (case t of TString k \<Rightarrow> Some (PColon k, stack) | TRBrace \<Rightarrow> close_object stack | _ \<Rightarrow> None)
      | (PKey, stack) \<Rightarrow> (case t of TString k \<Rightarrow> Some (PColon k, stack) | _ \<Rightarrow> None)
      | (PColon k, stack) \<Rightarrow>
          (case (t, stack) of
             (TColon, InObject ms _ # st) \<Rightarrow> Some (PValue, InObject ms k # st)
           | _ \<Rightarrow> None)
      | (PAfter, stack) \<Rightarrow>
          (case t of
             TComma \<Rightarrow>
               (case stack of
                  InArray es # st \<Rightarrow> Some (PValue, stack)
                | InObject ms k # st \<Rightarrow> Some (PKey, stack)
                | [] \<Rightarrow> None)
           | TRBracket \<Rightarrow> close_array stack
           | TRBrace \<Rightarrow> close_object stack
           | _ \<Rightarrow> None)
      | (PDone v, stack) \<Rightarrow> None)"

fun parse_tokens :: "parse_state \<times> frame list \<Rightarrow> token list \<Rightarrow> (parse_state \<times> frame list) option" where
  "parse_tokens ps [] = Some ps"
| "parse_tokens ps (t # ts) =
     (case parse_step ps t of None \<Rightarrow> None | Some ps' \<Rightarrow> parse_tokens ps' ts)"

definition JSON_parse :: "jsstr \<Rightarrow> json option" where
  "JSON_parse s =
     (case lex Between s of
        None \<Rightarrow> None
      | Some ts \<Rightarrow>
          (case parse_tokens (PValue, []) ts of
             Some (PDone v, _) \<Rightarrow> Some v
           | _ \<Rightarrow> None))"

text \<open>
  Reading a parsed object. With a repeated key the last value wins and the key keeps
  its first place. \<open>Object.keys\<close> lists the array-index keys first, by value, then
  the other keys as they were created.
\<close>

definition property :: "(jsstr \<times> json) list \<Rightarrow> jsstr \<Rightarrow> json option" where
  "property ms k = map_of (rev ms) k"

definition index_value :: "jsstr \<Rightarrow> int" where
  "index_value k = foldl (\<lambda>a d. 10 * a + (d - 48)) 0 k"

definition is_array_index :: "jsstr \<Rightarrow> bool" where
  "is_array_index k \<longleftrightarrow>
     k \<noteq> [] \<and> list_all is_digit k \<and> (k = [48] \<or> hd k \<noteq> 48) \<and> length k \<le> 10
     \<and> index_value k < 4294967295"

definition Object_keys :: "(jsstr \<times> json) list \<Rightarrow> jsstr list" where
  "Object_keys ms =
     (let ks = rev (remdups (rev (map fst ms)))
      in sort_key index_value (filter is_array_index ks)
         @ filter (\<lambda>k. \<not> is_array_index k) ks)"

section \<open>engine.ts: parsing the generator's reply\<close>

definition index_of :: "int \<Rightarrow> jsstr \<Rightarrow> nat option" where
  "index_of c s = (if c \<in> set s then Some (length (takeWhile (\<lambda>x. x \<noteq> c) s)) else None)"

definition last_index_of :: "int \<Rightarrow> jsstr \<Rightarrow> nat option" where
  "last_index_of c s =
     (if c \<in> set s then Some (length s - 1 - length (takeWhile (\<lambda>x. x \<noteq> c) (rev s))) else None)"

text \<open>\<open>s.slice(i, j)\<close> for \<open>0 \<le> i\<close> and \<open>0 \<le> j\<close>:\<close>

definition slice :: "nat \<Rightarrow> nat \<Rightarrow> jsstr \<Rightarrow> jsstr" where
  "slice i j s = take (j - i) (drop i s)"

text \<open>
  \<open>parseJsonOnly\<close>. The text of a SyntaxError is chosen by the JavaScript engine; it
  is the parameter \<open>syntaxErrorMessage\<close>, a function of the rejected input.
\<close>

definition parseJsonOnly :: "(jsstr \<Rightarrow> jsstr) \<Rightarrow> jsstr \<Rightarrow> error + jsstr" where
  "parseJsonOnly syntaxErrorMessage raw =
     (let trimmed = trim raw in
      case (index_of 123 trimmed, last_index_of 125 trimmed) of
        (Some first_brace, Some last_brace) \<Rightarrow>
          if last_brace \<le> first_brace then Inl (NotJson (slice 0 180 trimmed))
          else
            (let jsonStr = slice first_brace (last_brace + 1) trimmed in
             case JSON_parse jsonStr of
               None \<Rightarrow> Inl (InvalidJson (syntaxErrorMessage jsonStr))
             | Some (JObject ms) \<Rightarrow>
                 (case property ms (str ''text'') of
                    Some (JString s) \<Rightarrow>
                      (let extraKeys = filter (\<lambda>k. k \<noteq> str ''text'') (Object_keys ms) in
                       if extraKeys \<noteq> [] then Inl (ExtraKeys extraKeys)
                       else
                         (let t = trim s in
                          if t = [] then Inl EmptyText else Inr t))
                  | _ \<Rightarrow> Inl BadShape)
             | Some _ \<Rightarrow> Inl BadShape)
      | _ \<Rightarrow> Inl (NotJson (slice 0 180 trimmed)))"

section \<open>Regular expressions of the program\<close>

text \<open>
  The regular expressions are written without the \<open>u\<close> flag. Under the \<open>i\<close> flag
  an ASCII letter of a pattern then matches exactly its two ASCII cases, \<open>\w\<close> is
  \<open>[A-Za-z0-9_]\<close>, and \<open>\b\<close> holds where exactly one of the two neighbours is such
  a character (the ends of the text count as none).
\<close>

definition ascii_lower :: "int \<Rightarrow> int" where
  "ascii_lower c = (if 65 \<le> c \<and> c \<le> 90 then c + 32 else c)"

definition is_word_char :: "int \<Rightarrow> bool" where
  "is_word_char c \<longleftrightarrow> (97 \<le> c \<and> c \<le> 122) \<or> (65 \<le> c \<and> c \<le> 90) \<or> is_digit c \<or> c = 95"

text \<open>A lower-case literal read at the start of \<open>s\<close>, ignoring case; what follows it.\<close>

definition rx_literal :: "jsstr \<Rightarrow> jsstr \<Rightarrow> jsstr option" where
  "rx_literal p s =
     (if length p \<le> length s \<and> map ascii_lower (take (length p) s) = p
      then Some (drop (length p) s) else None)"

text \<open>One or more characters of a class, as many as there are; what follows them.\<close>

definition rx_plus :: "(int \<Rightarrow> bool) \<Rightarrow> jsstr \<Rightarrow> jsstr option" where
  "rx_plus P s = (if s \<noteq> [] \<and> P (hd s) then Some (dropWhile P s) else None)"

text \<open>\<open>regex.test(s)\<close> for a pattern that is not anchored: a match at some position.\<close>

fun rx_search :: "(jsstr \<Rightarrow> bool) \<Rightarrow> jsstr \<Rightarrow> bool" where
  "rx_search m [] = m []"
| "rx_search m (c # cs) = (m (c # cs) \<or> rx_search m cs)"

text \<open>
  \<open>hasImperativeVerbs\<close> of validate.ts:
  \<open>/\b(speak|take|try|remember|focus|consider|embrace|choose|commit)\b/i\<close>. The flag
  tells whether the character before the position is a word character.
\<close>

definition IMPERATIVE_VERBS :: "jsstr list" where
  "IMPERATIVE_VERBS = map str
     [''speak'', ''take'', ''try'', ''remember'', ''focus'', ''consider'', ''embrace'',
      ''choose'', ''commit'']"

definition verb_at :: "jsstr \<Rightarrow> bool" where
  "verb_at s =
     list_ex (\<lambda>w. case rx_literal w s of
                     None \<Rightarrow> False
                   | Some r \<Rightarrow> r = [] \<or> \<not> is_word_char (hd r)) IMPERATIVE_VERBS"

fun imperative_scan :: "bool \<Rightarrow> jsstr \<Rightarrow> bool" where
  "imperative_scan after_word [] = False"
| "imperative_scan after_word (c # cs) =
     ((\<not> after_word \<and> verb_at (c # cs)) \<or> imperative_scan (is_word_char c) cs)"

definition hasImperativeVerbs :: "jsstr \<Rightarrow> bool" where
  "hasImperativeVerbs t = imperative_scan False t"

text \<open>
  \<open>isWordCountError\<close>: \<open>/Word count\s+\d+\s+outside\s+\d+\<endash>\d+/i\<close>, with the
  en dash U+2013. White space, digits and the dash exclude one another, so reading each
  run to its end loses no match.
\<close>

definition wordcount_pattern :: "jsstr \<Rightarrow> bool" where
  "wordcount_pattern s =
     (case Option.bind (Option.bind (Option.bind (Option.bind (Option.bind (Option.bind
            (Option.bind (Option.bind
              (rx_literal (str ''word count'') s)
              (rx_plus is_ws))
              (rx_plus is_digit))
              (rx_plus is_ws))
              (rx_literal (str ''outside'')))
              (rx_plus is_ws))
              (rx_plus is_digit))
              (rx_literal [8211]))
              (rx_plus is_digit) of
        None \<Rightarrow> False
      | Some _ \<Rightarrow> True)"

definition isWordCountError :: "jsstr \<Rightarrow> bool" where
  "isWordCountError msg = rx_search wordcount_pattern msg"

section \<open>Error messages\<close>

definition message :: "error \<Rightarrow> jsstr" where
  \<open>message e =
     (case e of
        UnsupportedIdKey k \<Rightarrow> str ''Unsupported idKey for this scaffold: '' @ k
      | MeaningFileError m \<Rightarrow> m
      | OllamaError m \<Rightarrow> m
      | NotJson got \<Rightarrow> str ''Model did not return JSON. Got: '' @ got @ str ''...''
      | InvalidJson m \<Rightarrow> str ''Invalid JSON: '' @ m
      | BadShape \<Rightarrow> str ''JSON must be exactly {"text":"..."} (no other keys).''
      | ExtraKeys ks \<Rightarrow> str ''Extra JSON keys not allowed: '' @ join (str '', '') ks
      | EmptyText \<Rightarrow> str ''"text" is empty.''
      | WordCountOutOfRange wc lo hi \<Rightarrow>
          str ''Word count '' @ decimal wc @ str '' outside '' @ decimal lo @ [8211]
            @ decimal hi @ str ''.''
      | SentenceCountMismatch sc n \<Rightarrow>
          str ''Sentence count '' @ decimal sc @ str '' != '' @ decimal n @ str ''.''
      | ImperativeCoaching w \<Rightarrow>
          str ''Imperative coaching detected: sentence starts with "'' @ w @ str ''"''
      | NotDefined name \<Rightarrow> name @ str '' is not defined''
      | GenerationExhausted lastErr \<Rightarrow>
          str ''Failed to generate valid output. Last error: ''
            @ (case lastErr of None \<Rightarrow> str ''unknown'' | Some m \<Rightarrow> m))\<close>

section \<open>engine.ts: canon and anchors\<close>

record CanonSide =
  themes :: "jsstr list"
  core :: "jsstr list"

record MeaningFile =
  m_cardId :: jsstr
  m_cardName :: jsstr
  upright :: CanonSide
  reversed_side :: CanonSide

record CardGenInput =
  spreadId :: jsstr
  idKey :: jsstr
  intentionId :: jsstr
  intentionText :: jsstr
  cardId :: jsstr
  cardName :: jsstr
  reversed :: bool

record CardGenOutput =
  key :: jsstr
  text_out :: jsstr
  createdAtISO :: jsstr

definition MIN_WORDS :: nat where "MIN_WORDS = 75"
definition MAX_WORDS :: nat where "MAX_WORDS = 150"
definition MIN_SENTENCES :: nat where "MIN_SENTENCES = 4"
definition MAX_SENTENCES :: nat where "MAX_SENTENCES = 6"
definition TARGET_MIN :: nat where "TARGET_MIN = 95"
definition TARGET_MAX :: nat where "TARGET_MAX = 125"
definition MAX_DRAFT_ATTEMPTS :: nat where "MAX_DRAFT_ATTEMPTS = 4"
definition MAX_REPAIRS_PER_DRAFT :: nat where "MAX_REPAIRS_PER_DRAFT = 2"

definition buildCanonBlock :: "MeaningFile \<Rightarrow> bool \<Rightarrow> jsstr list" where
  "buildCanonBlock m rev_flag =
     (let side = (if rev_flag then reversed_side m else upright m) in
      [str ''themes: '' @ join (str '', '') (themes side),
       str ''core: '' @ join (str '' | '') (core side)])"

text \<open>
  The hash of \<open>pickCanonAnchors\<close>. \<open>h\<close> is a JavaScript number (a double) that always
  holds an integer. \<open>h ^ c\<close> takes \<open>h\<close> modulo \<open>2^32\<close> as a signed 32-bit integer
  (\<open>ToInt32\<close>); the product with 16777619 can exceed \<open>2^53\<close> and is then rounded to the
  nearest double, ties to the even significand. \<open>for (const ch of seedKey)\<close> walks the
  code points, and \<open>ch.charCodeAt(0)\<close> is the first code unit of each.
\<close>

definition ToInt32 :: "int \<Rightarrow> int" where
  "ToInt32 h = signed_take_bit 31 h"

function bit_width :: "int \<Rightarrow> nat" where
  "bit_width a = (if a \<le> 0 then 0 else Suc (bit_width (a div 2)))"
  by pat_completeness auto
termination
  by (relation "measure nat") auto

declare bit_width.simps [simp del]

definition round_double :: "int \<Rightarrow> int" where
  "round_double x =
     (let a = \<bar>x\<bar>;
          e = bit_width a - 53;
          q = a div 2 ^ e;
          r = a mod 2 ^ e;
          q' = (if 2 * r > 2 ^ e \<or> (2 * r = 2 ^ e \<and> odd q) then q + 1 else q)
      in sgn x * (q' * 2 ^ e))"

fun code_point_heads :: "jsstr \<Rightarrow> int list" where
  "code_point_heads [] = []"
| "code_point_heads [c] = [c]"
| "code_point_heads (c # d # cs) =
     (if 55296 \<le> c \<and> c \<le> 56319 \<and> 56320 \<le> d \<and> d \<le> 57343
      then c # code_point_heads cs
      else c # code_point_heads (d # cs))"

definition seed_hash :: "jsstr \<Rightarrow> int" where
  "seed_hash seedKey =
     foldl (\<lambda>h c. round_double ((ToInt32 h XOR c) * 16777619)) 2166136261
       (code_point_heads seedKey)"

definition pickCanonAnchors :: "MeaningFile \<Rightarrow> bool \<Rightarrow> jsstr \<Rightarrow> jsstr list" where
  "pickCanonAnchors m rev_flag seedKey =
     (let side = (if rev_flag then reversed_side m else upright m);
          cs = filter_Boolean (core side)
      in if length cs = 0 then [[], []]
         else if length cs = 1 then [cs ! 0, cs ! 0]
         else if length cs = 2 then [cs ! 0, cs ! 1]
         else
           (let h = seed_hash seedKey;
                i1 = nat (\<bar>h\<bar> mod int (length cs));
                i2 = (i1 + 1 + nat (\<bar>ToInt32 h div 256\<bar> mod int (length cs - 1))) mod length cs
            in [cs ! i1, cs ! i2]))"

text \<open>\<open>keywordsFromAnchor\<close>: \<open>replace(/[^a-z0-9\s']/g, "")\<close> keeps these characters.\<close>

definition is_keyword_char :: "int \<Rightarrow> bool" where
  "is_keyword_char c \<longleftrightarrow> (97 \<le> c \<and> c \<le> 122) \<or> is_digit c \<or> is_ws c \<or> c = 39"

definition keywordsFromAnchor :: "jsstr \<Rightarrow> jsstr list" where
  "keywordsFromAnchor anchor =
     filter (\<lambda>w. length w \<ge> 5)
       (filter_Boolean (split_ws (filter is_keyword_char (toLowerCase anchor))))"

record Coverage =
  matched :: nat
  total :: nat

definition anchor_hitCount :: "jsstr \<Rightarrow> jsstr \<Rightarrow> nat" where
  "anchor_hitCount t a =
     foldl (\<lambda>acc k. if js_includes t k then acc + 1 else acc) 0 (keywordsFromAnchor a)"

definition scoreAnchorCoverage :: "jsstr \<Rightarrow> jsstr list \<Rightarrow> Coverage" where
  "scoreAnchorCoverage txt anchors =
     (let t = toLowerCase txt in
      \<lparr>matched = foldl (\<lambda>n a. if anchor_hitCount t a \<ge> 2 then n + 1 else n) 0 anchors,
       total = length anchors\<rparr>)"

section \<open>engine.ts: themes, intention tokens and padding\<close>

text \<open>\<open>s.split(sep)\<close> for a separator of one character.\<close>

fun split_on :: "int \<Rightarrow> jsstr \<Rightarrow> jsstr list" where
  "split_on sep [] = [[]]"
| "split_on sep (c # cs) =
     (if c = sep then [] # split_on sep cs
      else (case split_on sep cs of [] \<Rightarrow> [[c]] | w # ws \<Rightarrow> (c # w) # ws))"

definition extractThemesFromCanonLines :: "jsstr list \<Rightarrow> jsstr list" where
  "extractThemesFromCanonLines canonLines =
     (case find (\<lambda>l. prefix (str ''themes:'') (toLowerCase l)) canonLines of
        None \<Rightarrow> []
      | Some line \<Rightarrow>
          filter_Boolean (map trim (split_on 44
            (case index_of 58 line of None \<Rightarrow> line | Some i \<Rightarrow> drop (i + 1) line))))"

definition STOP_WORDS :: "jsstr list" where
  "STOP_WORDS = map str
     [''the'', ''a'', ''an'', ''and'', ''or'', ''but'', ''so'', ''to'', ''of'', ''in'', ''on'',
      ''for'', ''with'', ''at'', ''by'', ''i'', ''me'', ''my'', ''mine'', ''you'', ''your'',
      ''yours'', ''we'', ''our'', ''ours'', ''is'', ''am'', ''are'', ''was'', ''were'', ''be'',
      ''been'', ''being'', ''how'', ''what'', ''where'', ''when'', ''why'', ''can'', ''do'',
      ''does'', ''did'', ''should'', ''would'', ''could'', ''this'', ''that'', ''these'',
      ''those'', ''it'', ''as'', ''from'', ''into'', ''over'', ''under'', ''about'', ''now'']"

text \<open>\<open>replace(/\s+/g, " ")\<close>: every maximal run of white space becomes one space.\<close>

fun collapse_ws_from :: "bool \<Rightarrow> jsstr \<Rightarrow> jsstr" where
  "collapse_ws_from in_run [] = []"
| "collapse_ws_from in_run (c # cs) =
     (if is_ws c then (if in_run then collapse_ws_from True cs else 32 # collapse_ws_from True cs)
      else c # collapse_ws_from False cs)"

definition collapse_ws :: "jsstr \<Rightarrow> jsstr" where
  "collapse_ws s = collapse_ws_from False s"

text \<open>\<open>normalizeTokens\<close>, one definition for each step of the chain.\<close>

definition is_token_char :: "int \<Rightarrow> bool" where
  "is_token_char c \<longleftrightarrow> (97 \<le> c \<and> c \<le> 122) \<or> is_digit c \<or> is_ws c \<or> c = 45"

definition strip_dashes :: "jsstr \<Rightarrow> jsstr" where
  "strip_dashes t = rev (dropWhile (\<lambda>c. c = 45) (rev (dropWhile (\<lambda>c. c = 45) t)))"

definition normalizeTokens :: "jsstr \<Rightarrow> jsstr list" where
  "normalizeTokens s =
     map strip_dashes
       (filter_Boolean
         (split_on 32
           (trim
             (collapse_ws
               (map (\<lambda>c. if is_token_char c then c else 32)
                 (filter (\<lambda>c. c \<noteq> 34 \<and> c \<noteq> 39) (toLowerCase s)))))))"

text \<open>The loop of \<open>hasIntentionReference\<close>, with its early return.\<close>

fun intention_hits :: "jsstr list \<Rightarrow> nat \<Rightarrow> nat \<Rightarrow> jsstr list \<Rightarrow> bool" where
  "intention_hits textTokens needed hits [] = False"
| "intention_hits textTokens needed hits (tok # toks) =
     (let hits' = (if tok \<in> set textTokens then hits + 1 else hits) in
      if hits' \<ge> needed then True else intention_hits textTokens needed hits' toks)"

definition hasIntentionReference :: "jsstr \<Rightarrow> jsstr \<Rightarrow> bool" where
  "hasIntentionReference txt intention =
     (let intentTokens = filter (\<lambda>t. t \<notin> set STOP_WORDS) (normalizeTokens intention);
          textTokens = normalizeTokens txt;
          needed = (if length intentTokens \<ge> 5 then 2 else 1)
      in intention_hits textTokens needed 0 intentTokens)"

text \<open>
  \<open>intentionQuote\<close>. \<open>replace(/\b(my|the|a|an|on|in|of|to|for)$/i, "")\<close> removes a
  final function word that stands at a word boundary; no two of the nine words can end
  the same phrase, so the first that does is the match.
\<close>

definition FUNCTION_WORDS :: "jsstr list" where
  "FUNCTION_WORDS = map str [''my'', ''the'', ''a'', ''an'', ''on'', ''in'', ''of'', ''to'', ''for'']"

definition ends_with_word :: "jsstr \<Rightarrow> jsstr \<Rightarrow> bool" where
  "ends_with_word p w \<longleftrightarrow>
     length w \<le> length p
     \<and> map ascii_lower (drop (length p - length w) p) = w
     \<and> (length p = length w \<or> \<not> is_word_char (p ! (length p - length w - 1)))"

definition strip_function_word :: "jsstr \<Rightarrow> jsstr" where
  "strip_function_word p =
     (case find (ends_with_word p) FUNCTION_WORDS of
        None \<Rightarrow> p
      | Some w \<Rightarrow> take (length p - length w) p)"

text \<open>\<open>s.indexOf(p)\<close> for a string \<open>p\<close>: the first position where \<open>p\<close> starts.\<close>

fun index_of_string :: "jsstr \<Rightarrow> jsstr \<Rightarrow> nat option" where
  "index_of_string p [] = (if p = [] then Some 0 else None)"
| "index_of_string p (c # cs) =
     (if prefix p (c # cs) then Some 0 else map_option Suc (index_of_string p cs))"

definition QUESTION_STARTERS :: "jsstr list" where
  "QUESTION_STARTERS = map str
     [''where am i'', ''what is'', ''what can'', ''how can'', ''how do'', ''should i'', ''is it'',
      ''what will'']"

fun quote_from_starters :: "jsstr \<Rightarrow> jsstr \<Rightarrow> jsstr list \<Rightarrow> jsstr option" where
  "quote_from_starters cleaned lower [] = None"
| "quote_from_starters cleaned lower (s # ss) =
     (case index_of_string s lower of
        None \<Rightarrow> quote_from_starters cleaned lower ss
      | Some idx \<Rightarrow>
          (let tail = filter_Boolean (split_ws (drop idx cleaned));
               phrase = join (str '' '') (take 6 tail);
               trimmed = strip_function_word phrase
           in if length (split_ws trimmed) \<ge> 2 then Some trimmed
              else quote_from_starters cleaned lower ss))"

definition intentionQuote :: "jsstr \<Rightarrow> jsstr" where
  "intentionQuote intention =
     (let cleaned = filter (\<lambda>c. c \<noteq> 34 \<and> c \<noteq> 39) (collapse_ws (trim intention)) in
      case quote_from_starters cleaned (toLowerCase cleaned) QUESTION_STARTERS of
        Some q \<Rightarrow> q
      | None \<Rightarrow>
          (let ws = filter_Boolean (split_ws cleaned) in
           if length ws \<le> 6 then cleaned
           else
             (let mid = length ws div 2;
                  start = mid - 2;
                  phrase = join (str '' '') (take 5 (drop start ws));
                  trimmed = strip_function_word phrase
              in if length (split_ws trimmed) \<ge> 2 then trimmed
                 else join (str '' '') (take 4 (drop start ws)))))"

text \<open>
  \<open>padSentence3ToMinWords\<close>. \<open>t[i] ?? d\<close> is the element when there is one and the
  default otherwise; \<open>replace(/[.!?]+$/, "")\<close> removes the terminal marks at the end.
\<close>

definition nth_or :: "jsstr list \<Rightarrow> nat \<Rightarrow> jsstr \<Rightarrow> jsstr" where
  "nth_or xs i d = (if i < length xs then xs ! i else d)"

definition strip_terminal_end :: "jsstr \<Rightarrow> jsstr" where
  "strip_terminal_end s = rev (dropWhile is_terminal (rev s))"

definition rolePhrase :: "Role \<Rightarrow> jsstr \<Rightarrow> jsstr \<Rightarrow> jsstr \<Rightarrow> jsstr \<Rightarrow> jsstr" where
  "rolePhrase role a b c intentHint =
     (case role of
        Past \<Rightarrow>
          str ''In that season, '' @ a @ str '' and '' @ b @ str '' steadied you, and '' @ c
            @ str '' stayed honest inside your '' @ intentHint @ str ''.''
      | Present \<Rightarrow>
          str ''In this season, '' @ a @ str '' and '' @ b @ str '' steady you, and '' @ c
            @ str '' stays honest inside your '' @ intentHint @ str ''.''
      | Future \<Rightarrow>
          str ''In the season ahead, '' @ a @ str '' and '' @ b @ str '' will steady you, and ''
            @ c @ str '' will stay honest inside your '' @ intentHint @ str ''.'')"

definition extra_clause :: "Role \<Rightarrow> jsstr" where
  "extra_clause role =
     (case role of
        Past \<Rightarrow> str ''It shaped how you chose when certainty wasn'' @ [8217] @ str ''t available.''
      | Present \<Rightarrow> str ''It shapes how you choose even without certainty.''
      | Future \<Rightarrow> str ''It will shape how you choose even without certainty.'')"

definition pad_sentences :: "jsstr \<Rightarrow> jsstr list" where
  "pad_sentences t = filter_Boolean (map trim (split_sentences t))"

definition padded_sentence3 :: "jsstr \<Rightarrow> Role \<Rightarrow> jsstr list \<Rightarrow> jsstr \<Rightarrow> jsstr" where
  "padded_sentence3 sentence3 role ths intention =
     (let t = take 3 ths;
          a = nth_or t 0 (str ''trust'');
          b = nth_or t 1 (str ''focus'');
          c = nth_or t 2 (str ''openness'');
          intentTokens = filter (\<lambda>t. t \<notin> set STOP_WORDS) (normalizeTokens intention);
          joined = join (str '' '') (take 2 intentTokens);
          intentHint = (if joined = [] then str ''intention'' else joined);
          s3 = strip_terminal_end sentence3
      in trim (collapse_ws (s3 @ str '' '' @ rolePhrase role a b c intentHint @ str '' ''
                              @ extra_clause role)) @ str ''.'')"

definition padSentence3ToMinWords ::
  "jsstr \<Rightarrow> Role \<Rightarrow> jsstr list \<Rightarrow> jsstr \<Rightarrow> nat \<Rightarrow> jsstr" where
  "padSentence3ToMinWords t role ths intention minW =
     (if wordCount t \<ge> minW then t
      else
        (let sentences = pad_sentences t in
         if length sentences < 3 then t
         else join (str '' '')
                (sentences[2 := padded_sentence3 (sentences ! 2) role ths intention])))"

definition makeKey :: "CardGenInput \<Rightarrow> jsstr" where
  "makeKey inp =
     spreadId inp @ str ''|'' @ idKey inp @ str ''|'' @ intentionId inp @ str ''|'' @ cardId inp
       @ str ''|'' @ (if reversed inp then str ''r'' else str ''u'')"

section \<open>engine.ts: the orchestrator\<close>

text \<open>
  What lies outside the program is a parameter of the model:
  \<^item> \<open>loadMajorMeaning\<close>: the outcome of reading and parsing the meaning file of a card,
    an error or a record of the declared type \<open>MeaningFile\<close>;
  \<^item> \<open>ollamaChat\<close>: the outcome of the \<open>n\<close>-th call of the generator in this run, a
    reply or a thrown error with its message. Quantifying over this function covers
    every behaviour of the generator, whatever the prompts; the prompt texts are
    therefore not modelled;
  \<^item> \<open>syntaxErrorMessage\<close>: the engine's wording of a JSON SyntaxError;
  \<^item> \<open>now\<close>: the value of \<open>new Date().toISOString()\<close>.
  The effects of a run are the number of generator calls made and the lines written
  with \<open>console.warn\<close>.
\<close>

datatype reply = Content jsstr | Failure jsstr

record environment =
  loadMajorMeaning :: "jsstr \<Rightarrow> error + MeaningFile"
  ollamaChat :: "nat \<Rightarrow> reply"
  syntaxErrorMessage :: "jsstr \<Rightarrow> jsstr"
  now :: jsstr

record effects =
  calls :: nat
  warnings :: "jsstr list"

record ctx =
  env :: environment
  request :: CardGenInput
  role_of :: Role
  canonLines :: "jsstr list"
  anchors :: "jsstr list"

definition call_generator :: "environment \<Rightarrow> effects \<Rightarrow> reply \<times> effects" where
  "call_generator e fx = (ollamaChat e (calls fx), fx\<lparr>calls := calls fx + 1\<rparr>)"

text \<open>
  \<open>draftOnce\<close>, \<open>repairRewrite\<close> and \<open>microRepairForLength\<close> each build a prompt and
  make one generator call.
\<close>

definition draftOnce :: "ctx \<Rightarrow> effects \<Rightarrow> reply \<times> effects" where
  "draftOnce c fx = call_generator (env c) fx"

definition repairRewrite :: "ctx \<Rightarrow> jsstr \<Rightarrow> effects \<Rightarrow> reply \<times> effects" where
  "repairRewrite c badText fx = call_generator (env c) fx"

definition microRepairForLength :: "ctx \<Rightarrow> jsstr \<Rightarrow> effects \<Rightarrow> reply \<times> effects" where
  "microRepairForLength c badText fx = call_generator (env c) fx"

text \<open>The hard gate, as every call of \<open>validateText\<close> in the orchestrator configures it.\<close>

definition hard_options :: ValidateOptions where
  "hard_options =
     \<lparr>minWords = Some MIN_WORDS, maxWords = Some MAX_WORDS, requireSentenceCount = None,
      enforceNoImperatives = Some True\<rparr>"

definition hardGate :: "ctx \<Rightarrow> jsstr \<Rightarrow> error + unit" where
  "hardGate c t = validateText t (role_of c) hard_options"

definition make_output :: "ctx \<Rightarrow> jsstr \<Rightarrow> CardGenOutput" where
  "make_output c t = \<lparr>key = makeKey (request c), text_out = t, createdAtISO = now (env c)\<rparr>"

text \<open>
  The call \<open>lookslikeThemeDump(text)\<close> at the end of \<open>needsRepair\<close> names an identifier
  that is bound nowhere (the function of this file is \<open>looksLikeThemeDump\<close>): evaluating
  it throws a ReferenceError. \<open>||\<close> evaluates it only when every operand before it is
  false. The function \<open>looksLikeThemeDump\<close> itself is called nowhere and is left out.
\<close>

definition lookslikeThemeDump :: "jsstr \<Rightarrow> error + bool" where
  "lookslikeThemeDump t = Inl (NotDefined (str ''lookslikeThemeDump''))"

definition needsRepair :: "ctx \<Rightarrow> jsstr \<Rightarrow> error + bool" where
  "needsRepair c t =
     (let hits = lintDiscouragedPhrases t;
          cov = scoreAnchorCoverage t (anchors c);
          wc = wordCount t;
          sc = sentenceCount t
      in if matched cov < total cov
            \<or> length hits \<ge> 2
            \<or> wc < TARGET_MIN
            \<or> wc > TARGET_MAX
            \<or> sc < MIN_SENTENCES
            \<or> sc > MAX_SENTENCES
            \<or> hasImperativeVerbs t
            \<or> \<not> hasIntentionReference t (intentionText (request c))
         then Inr True
         else lookslikeThemeDump t)"

text \<open>
  The soft-repair loop, \<open>r = 1 .. MAX_REPAIRS_PER_DRAFT\<close>: the rounds left, the working
  text. It returns from the function with an accepted text, throws, or ends with the
  last working text.
\<close>

datatype soft_result = Accepted jsstr | Unfinished jsstr

fun softRepairRounds ::
  "ctx \<Rightarrow> nat \<Rightarrow> jsstr \<Rightarrow> effects \<Rightarrow> (error + soft_result) \<times> effects" where
  "softRepairRounds c 0 working fx = (Inr (Unfinished working), fx)"
| "softRepairRounds c (Suc n) working fx =
     (case repairRewrite c working fx of
        (Failure m, fx1) \<Rightarrow> (Inl (OllamaError m), fx1)
      | (Content repairedRaw, fx1) \<Rightarrow>
          (case parseJsonOnly (syntaxErrorMessage (env c)) repairedRaw of
             Inl e \<Rightarrow> (Inl e, fx1)
           | Inr working' \<Rightarrow>
               (case hardGate c working' of
                  Inl e \<Rightarrow> (Inl e, fx1)
                | Inr _ \<Rightarrow>
                    (let hits2 = lintDiscouragedPhrases working';
                         cov2 = scoreAnchorCoverage working' (anchors c);
                         wc2 = wordCount working'
                     in if matched cov2 = total cov2 \<and> length hits2 \<le> 1
                           \<and> wc2 \<ge> TARGET_MIN \<and> wc2 \<le> TARGET_MAX
                        then (Inr (Accepted working'), fx1)
                        else softRepairRounds c n working' fx1))))"

text \<open>
  The body of the \<open>try\<close> of one draft attempt, from the raw reply on. It returns a text
  to the caller of \<open>generateCardMessage\<close>, or ends with the soft targets not met, or
  throws; a throw is recorded with the value the variable \<open>text\<close> has at that moment.
\<close>

datatype try_result = Return jsstr | SoftTargetsNotMet jsstr Coverage | Thrown jsstr error

definition tryDraft :: "ctx \<Rightarrow> jsstr \<Rightarrow> effects \<Rightarrow> try_result \<times> effects" where
  "tryDraft c raw fx =
     (case parseJsonOnly (syntaxErrorMessage (env c)) raw of
        Inl e \<Rightarrow> (Thrown [] e, fx)
      | Inr t \<Rightarrow>
          (case hardGate c t of
             Inl e \<Rightarrow> (Thrown t e, fx)
           | Inr _ \<Rightarrow>
               (case needsRepair c t of
                  Inl e \<Rightarrow> (Thrown t e, fx)
                | Inr False \<Rightarrow> (Return t, fx)
                | Inr True \<Rightarrow>
                    (case softRepairRounds c MAX_REPAIRS_PER_DRAFT t fx of
                       (Inl e, fx1) \<Rightarrow> (Thrown t e, fx1)
                     | (Inr (Accepted working), fx1) \<Rightarrow> (Return working, fx1)
                     | (Inr (Unfinished working), fx1) \<Rightarrow>
                         (let covFinal = scoreAnchorCoverage working (anchors c) in
                          if matched covFinal = total covFinal then (Return working, fx1)
                          else (SoftTargetsNotMet working covFinal, fx1))))))"

text \<open>
  The length-repair chain of the \<open>catch\<close>: micro-repair by the generator, padding in
  code, the hard gate again.
\<close>

definition lengthRepair :: "ctx \<Rightarrow> jsstr \<Rightarrow> effects \<Rightarrow> (error + jsstr) \<times> effects" where
  "lengthRepair c t fx =
     (case microRepairForLength c t fx of
        (Failure m, fx1) \<Rightarrow> (Inl (OllamaError m), fx1)
      | (Content repairedRaw, fx1) \<Rightarrow>
          (case parseJsonOnly (syntaxErrorMessage (env c)) repairedRaw of
             Inl e \<Rightarrow> (Inl e, fx1)
           | Inr parsed \<Rightarrow>
               (let ths = extractThemesFromCanonLines (canonLines c);
                    q = intentionQuote (intentionText (request c));
                    repairedText = padSentence3ToMinWords parsed (role_of c) ths q MIN_WORDS
                in case hardGate c repairedText of
                     Inl e \<Rightarrow> (Inl e, fx1)
                   | Inr _ \<Rightarrow> (Inr repairedText, fx1))))"

text \<open>The two variables that survive an attempt: \<open>lastErr\<close> and \<open>lastText\<close>.\<close>

record memory =
  lastErr :: "jsstr option"
  lastText :: "jsstr option"

datatype attempt_result =
    Finished "error + CardGenOutput"
  | Continue memory

definition soft_failure_message :: "Coverage \<Rightarrow> jsstr" where
  "soft_failure_message cov =
     str ''Soft targets not met after repairs (coverage='' @ decimal (matched cov) @ str ''/''
       @ decimal (total cov) @ str '').''"

definition catchDraft :: "ctx \<Rightarrow> memory \<Rightarrow> jsstr \<Rightarrow> error \<Rightarrow> effects \<Rightarrow> attempt_result \<times> effects" where
  "catchDraft c mem t e fx =
     (let mem1 = \<lparr>lastErr = Some (message e),
                  lastText = (if t \<noteq> [] then Some t else lastText mem)\<rparr>
      in if t \<noteq> [] \<and> isWordCountError (message e)
         then (case lengthRepair c t fx of
                 (Inr repairedText, fx1) \<Rightarrow> (Finished (Inr (make_output c repairedText)), fx1)
               | (Inl e2, fx1) \<Rightarrow>
                   (Continue \<lparr>lastErr = Some (str ''Micro-repair failed: '' @ message e2),
                              lastText = Some t\<rparr>, fx1))
         else (Continue mem1, fx))"

text \<open>One pass of the \<open>for\<close> loop. The call of \<open>draftOnce\<close> stands before the \<open>try\<close>.\<close>

definition draftAttempt :: "ctx \<Rightarrow> memory \<Rightarrow> effects \<Rightarrow> attempt_result \<times> effects" where
  "draftAttempt c mem fx =
     (case draftOnce c fx of
        (Failure m, fx1) \<Rightarrow> (Finished (Inl (OllamaError m)), fx1)
      | (Content raw, fx1) \<Rightarrow>
          (case tryDraft c raw fx1 of
             (Return t, fx2) \<Rightarrow> (Finished (Inr (make_output c t)), fx2)
           | (SoftTargetsNotMet working covFinal, fx2) \<Rightarrow>
               (Continue \<lparr>lastErr = Some (soft_failure_message covFinal),
                          lastText = Some working\<rparr>, fx2)
           | (Thrown t e, fx2) \<Rightarrow> catchDraft c mem t e fx2))"

fun draftAttempts :: "ctx \<Rightarrow> nat \<Rightarrow> memory \<Rightarrow> effects \<Rightarrow> attempt_result \<times> effects" where
  "draftAttempts c 0 mem fx = (Continue mem, fx)"
| "draftAttempts c (Suc n) mem fx =
     (case draftAttempt c mem fx of
        (Finished r, fx1) \<Rightarrow> (Finished r, fx1)
      | (Continue mem1, fx1) \<Rightarrow> draftAttempts c n mem1 fx1)"

text \<open>After the loop: the final fallback, and the error of exhaustion.\<close>

definition fallback_warning :: "memory \<Rightarrow> jsstr" where
  "fallback_warning mem =
     str ''Returning mechanically-valid fallback. Last error: ''
       @ (case lastErr mem of None \<Rightarrow> str ''unknown'' | Some m \<Rightarrow> m)"

definition finalFallback :: "ctx \<Rightarrow> memory \<Rightarrow> effects \<Rightarrow> (error + CardGenOutput) \<times> effects" where
  "finalFallback c mem fx =
     (case lastText mem of
        None \<Rightarrow> (Inl (GenerationExhausted (lastErr mem)), fx)
      | Some lt \<Rightarrow>
          if lt = [] then (Inl (GenerationExhausted (lastErr mem)), fx)
          else
            (case hardGate c lt of
               Inl e \<Rightarrow> (Inl (GenerationExhausted (lastErr mem)), fx)
             | Inr _ \<Rightarrow>
                 (let wc = wordCount lt in
                  if wc < TARGET_MIN \<or> wc > TARGET_MAX
                  then (case microRepairForLength c lt fx of
                          (Failure m, fx1) \<Rightarrow> (Inl (GenerationExhausted (lastErr mem)), fx1)
                        | (Content repairedRaw, fx1) \<Rightarrow>
                            (case parseJsonOnly (syntaxErrorMessage (env c)) repairedRaw of
                               Inl e \<Rightarrow> (Inl (GenerationExhausted (lastErr mem)), fx1)
                             | Inr repairedText \<Rightarrow>
                                 (case hardGate c repairedText of
                                    Inl e \<Rightarrow> (Inl (GenerationExhausted (lastErr mem)), fx1)
                                  | Inr _ \<Rightarrow> (Inr (make_output c repairedText), fx1))))
                  else (Inr (make_output c lt),
                        fx\<lparr>warnings := warnings fx @ [fallback_warning mem]\<rparr>))))"

definition anchor_seed :: "CardGenInput \<Rightarrow> jsstr" where
  "anchor_seed inp =
     intentionId inp @ str ''|'' @ cardId inp @ str ''|'' @ idKey inp @ str ''|''
       @ (if reversed inp then str ''r'' else str ''u'')"

text \<open>What \<open>generateCardMessage\<close> computes before its loop.\<close>

definition build_ctx :: "environment \<Rightarrow> CardGenInput \<Rightarrow> Role \<Rightarrow> MeaningFile \<Rightarrow> ctx" where
  "build_ctx e inp role meaning =
     \<lparr>env = e, request = inp, role_of = role,
      canonLines = buildCanonBlock meaning (reversed inp),
      anchors = pickCanonAnchors meaning (reversed inp) (anchor_seed inp)\<rparr>"

definition generateCardMessage :: "environment \<Rightarrow> CardGenInput \<Rightarrow> (error + CardGenOutput) \<times> effects" where
  "generateCardMessage e inp =
     (let fx0 = \<lparr>calls = 0, warnings = []\<rparr> in
      case roleFromIdKey (idKey inp) of
        Inl err \<Rightarrow> (Inl err, fx0)
      | Inr role \<Rightarrow>
          (case loadMajorMeaning e (cardId inp) of
             Inl err \<Rightarrow> (Inl err, fx0)
           | Inr meaning \<Rightarrow>
               (let c = build_ctx e inp role meaning
                in case draftAttempts c MAX_DRAFT_ATTEMPTS \<lparr>lastErr = None, lastText = None\<rparr> fx0 of
                     (Finished r, fx1) \<Rightarrow> (r, fx1)
                   | (Continue mem, fx1) \<Rightarrow> finalFallback c mem fx1)))"

section \<open>Example inputs\<close>

text \<open>
  The canon record of the specification's example: two core statements on the upright
  side, and a reversed side with no core statement that is not empty. Then a record
  with four core statements, and the seed that \<open>generateCardMessage\<close> builds from
  the request of scripts/test-gen.ts.
\<close>

definition example_meaning :: MeaningFile where
  "example_meaning =
     \<lparr>m_cardId = str ''2.TheEnchantress'', m_cardName = str ''The Enchantress'',
      upright = \<lparr>themes = [str ''trust'', str ''focus'', str ''openness''],
                 core = [str ''facing an old fear'', str ''trusting a new chapter'']\<rparr>,
      reversed_side = \<lparr>themes = [str ''doubt''], core = [str '''']\<rparr>\<rparr>"

definition four_statement_meaning :: MeaningFile where
  "four_statement_meaning =
     \<lparr>m_cardId = str ''2.TheEnchantress'', m_cardName = str ''The Enchantress'',
      upright = \<lparr>themes = [str ''trust'', str ''focus'', str ''openness''],
                 core = [str ''facing an old fear'', str ''trusting a new chapter'',
                         str ''letting the silence speak'', str ''holding a steady course'']\<rparr>,
      reversed_side = \<lparr>themes = [str ''doubt''], core = [str '''']\<rparr>\<rparr>"

definition example_seed :: jsstr where
  "example_seed = str ''ppf:growth:healing|2.TheEnchantress|past-3|u''"

text \<open>A canon record whose two core statements are the same sentence.\<close>

definition twice_told_meaning :: MeaningFile where
  "twice_told_meaning =
     \<lparr>m_cardId = str ''0.TheOne'', m_cardName = str ''The One'',
      upright = \<lparr>themes = [str ''trust''],
                 core = [str ''facing an old fear'', str ''facing an old fear'']\<rparr>,
      reversed_side = \<lparr>themes = [], core = []\<rparr>\<rparr>"

text \<open>
  The request of scripts/test-gen.ts, an environment around a scripted generator, and
  the context \<open>generateCardMessage\<close> computes for them before its loop.
\<close>

definition example_input :: CardGenInput where
  "example_input =
     \<lparr>spreadId = str ''ppf'', idKey = str ''past-3'', intentionId = str ''ppf:growth:healing'',
      intentionText = str ''Where am I on my spiritual journey?'',
      cardId = str ''2.TheEnchantress'', cardName = str ''The Enchantress'', reversed = False\<rparr>"

definition example_environment :: "(nat \<Rightarrow> reply) \<Rightarrow> jsstr \<Rightarrow> environment" where
  "example_environment script clock =
     \<lparr>loadMajorMeaning = (\<lambda>card. Inr example_meaning), ollamaChat = script,
      syntaxErrorMessage = (\<lambda>s. str ''Unexpected token''), now = clock\<rparr>"

definition example_ctx :: "(nat \<Rightarrow> reply) \<Rightarrow> ctx" where
  "example_ctx script =
     build_ctx (example_environment script (str ''2025-01-01T00:00:00.000Z'')) example_input
       Past example_meaning"

text \<open>A text of \<open>n\<close> words, and the reply that carries a text as JSON.\<close>

definition filler :: "nat \<Rightarrow> jsstr" where
  "filler n = join (str '' '') (replicate n (str ''so''))"

definition json_reply :: "jsstr \<Rightarrow> jsstr" where
  \<open>json_reply t = str ''{"text":"'' @ t @ str ''"}''\<close>

text \<open>Scripted generators: the reply to each call, by its number in the run.\<close>

definition script_extra_key :: "nat \<Rightarrow> reply" where
  \<open>script_extra_key n = Content (str ''{"text":"so it is","extra":1}'')\<close>

definition script_short_then_long :: "nat \<Rightarrow> reply" where
  "script_short_then_long n =
     (if n = 0 then Content (json_reply (str ''too short''))
      else Content (json_reply (filler 75)))"

definition script_valid_then_short :: "nat \<Rightarrow> reply" where
  "script_valid_then_short n =
     (if n = 0 then Content (json_reply (filler 75))
      else if n = 1 then Failure (str ''fetch failed'')
      else if n = 2 then Content (json_reply (str ''too short''))
      else if n = 3 then Failure (str ''fetch failed'')
      else Content (str ''no json''))"

definition script_valid_in_band :: "nat \<Rightarrow> reply" where
  "script_valid_in_band n =
     (if n = 0 then Content (json_reply (filler 95))
      else if n = 1 then Failure (str ''fetch failed'')
      else Content (str ''no json''))"

text \<open>
  A generator whose rewrite carries an extra key that reads like the word-count message.
\<close>

definition pattern_key :: jsstr where
  "pattern_key = str ''Word count 1 outside 2'' @ [8211] @ str ''3''"

definition script_pattern_key :: "nat \<Rightarrow> reply" where
  \<open>script_pattern_key n =
     (if n = 1 then Content (str ''{"text":"so","'' @ pattern_key @ str ''":1}'')
      else Content (json_reply (filler 75)))\<close>

section \<open>Notions used in the properties\<close>

text \<open>A result, and the outcome of an attempt, with another time of creation.\<close>

definition stamp :: "jsstr \<Rightarrow> error + CardGenOutput \<Rightarrow> error + CardGenOutput" where
  "stamp t r = map_sum id (\<lambda>out. out\<lparr>createdAtISO := t\<rparr>) r"

definition stamp_attempt :: "jsstr \<Rightarrow> attempt_result \<Rightarrow> attempt_result" where
  "stamp_attempt t a = (case a of Finished r \<Rightarrow> Finished (stamp t r) | Continue mem \<Rightarrow> Continue mem)"

text \<open>
  The number of words of a string as it stands, without the trimming that \<open>wordCount\<close>
  does first; and a string that is empty or starts with white space.
\<close>

definition count_words :: "jsstr \<Rightarrow> nat" where
  "count_words s = length (filter_Boolean (split_ws s))"

definition starts_blank :: "jsstr \<Rightarrow> bool" where
  "starts_blank s \<longleftrightarrow> s = [] \<or> is_ws (hd s)"

section \<open>The specification's reading of the imperative rule\<close>

text \<open>
  The specification lists the imperative lead words bare (take, try, remember, ...) and
  asks that no sentence begin with one of them, case-insensitively. These definitions
  follow its words; they are compared with \<open>validateText\<close> below.
\<close>

definition spec_IMPERATIVE_LEAD_WORDS :: "jsstr list" where
  "spec_IMPERATIVE_LEAD_WORDS = map str
     [''take'', ''try'', ''remember'', ''focus'', ''reflect'', ''act'', ''choose'', ''commit'',
      ''consider'', ''embrace'', ''let'', ''allow'']"

definition spec_begins_with_lead_word :: "jsstr \<Rightarrow> bool" where
  "spec_begins_with_lead_word s =
     list_ex (\<lambda>w. prefix w (toLowerCase s)) spec_IMPERATIVE_LEAD_WORDS"

definition spec_validateText_accepts :: "jsstr \<Rightarrow> ValidateOptions \<Rightarrow> bool" where
  "spec_validateText_accepts t opts =
     (trim t \<noteq> []
      \<and> opt_minWords opts \<le> wordCount t \<and> wordCount t \<le> opt_maxWords opts
      \<and> (case requireSentenceCount opts of None \<Rightarrow> True | Some n \<Rightarrow> sentenceCount t = n)
      \<and> (if opt_enforceNoImperatives opts
          then list_all (\<lambda>s. \<not> spec_begins_with_lead_word s)
                 (filter_Boolean (map trim (split_sentences (trim t))))
          else True))"

section \<open>Properties of the validator\<close>

lemma find_eq_None: "find P xs = None \<longleftrightarrow> (\<forall>x\<in>set xs. \<not> P x)"
  by (induction xs) auto

lemma find_eq_SomeD: "find P xs = Some x \<Longrightarrow> x \<in> set xs \<and> P x"
  by (induction xs) (auto split: if_splits)

lemma dropWhile_end_Cons:
  "rev (dropWhile P (rev (x # r))) =
     (if \<forall>y\<in>set r. P y then (if P x then [] else [x]) else x # rev (dropWhile P (rev r)))"
  by (simp add: dropWhile_append)

lemma dropWhile_both_commute:
  "dropWhile P (rev (dropWhile P (rev xs))) = rev (dropWhile P (rev (dropWhile P xs)))"
proof (induction xs)
  case Nil
  show ?case by simp
next
  case (Cons x r)
  show ?case
  proof (cases "P x")
    case True
    show ?thesis
    proof (cases "\<forall>y\<in>set r. P y")
      case True
      with \<open>P x\<close> show ?thesis by (auto simp: dropWhile_append dest: set_dropWhileD)
    next
      case False
      with \<open>P x\<close> Cons show ?thesis by (auto simp: dropWhile_append dest: set_dropWhileD)
    qed
  next
    case False
    then show ?thesis by (simp add: dropWhile_append)
  qed
qed

lemma trim_trim: "trim (trim s) = trim s"
proof -
  have "trim (trim s) = rev (dropWhile is_ws (rev (dropWhile is_ws (rev (dropWhile is_ws (rev (dropWhile is_ws s)))))))"
    by (simp add: trim_def)
  also have "\<dots> = rev (dropWhile is_ws (rev (rev (dropWhile is_ws (rev (dropWhile is_ws (dropWhile is_ws s)))))))"
    by (simp only: dropWhile_both_commute)
  also have "\<dots> = trim s"
    by (simp add: trim_def)
  finally show ?thesis .
qed

lemma first_imperative_start_None:
  "first_imperative_start ss = None \<longleftrightarrow>
     (\<forall>s\<in>set ss. \<forall>p\<in>set DISCOURAGED_IMPERATIVE_STARTS. \<not> prefix p s)"
  by (induction ss) (auto simp: find_eq_None split: option.splits dest: find_eq_SomeD)

lemma first_imperative_start_Some:
  "first_imperative_start ss = Some p \<Longrightarrow>
     p \<in> set DISCOURAGED_IMPERATIVE_STARTS \<and> (\<exists>s\<in>set ss. prefix p s)"
  by (induction ss) (auto split: option.splits dest: find_eq_SomeD)

lemma wordCount_trim: "wordCount (trim t) = wordCount t"
  by (simp add: wordCount_def trim_trim)

text \<open>
  Claim C10. The verdict of the hard gate does not depend on the role: for every text
  and every configuration, \<open>validateText\<close> gives the same acceptance or the same
  error for any two roles. No role-specific rule is enforced by this validator.
\<close>

theorem validateText_role_independent:
  "validateText t role opts = validateText t role' opts"
  by (simp add: validateText_def)

text \<open>
  Claim C4, as amended. \<open>validateText\<close> accepts exactly when the trimmed text is
  not empty, the word count lies between the two bounds (defaults 75 and 150), the
  sentence count equals \<open>requireSentenceCount\<close> when that is configured, and, when
  \<open>enforceNoImperatives\<close> is on, no sentence (split at white space after a terminal
  mark, trimmed, lower-cased) starts with one of the twelve strings of
  \<open>DISCOURAGED_IMPERATIVE_STARTS\<close>: ten lead words each followed by one space, and
  the bare prefixes remember and reflect. The checks run in this order, the first
  violation decides the error, and the word-count error carries the measured count.
  Being a function of the text and the configuration, the verdict is deterministic.
\<close>

theorem validateText_verdict:
  "(validateText t role opts = Inr () \<longleftrightarrow>
      trim t \<noteq> []
      \<and> opt_minWords opts \<le> wordCount t \<and> wordCount t \<le> opt_maxWords opts
      \<and> (\<forall>n. requireSentenceCount opts = Some n \<longrightarrow> sentenceCount t = n)
      \<and> (opt_enforceNoImperatives opts \<longrightarrow>
           (\<forall>s\<in>set (coaching_sentences (trim t)).
              \<forall>start\<in>set DISCOURAGED_IMPERATIVE_STARTS. \<not> prefix start s)))
   \<and> (trim t = [] \<longrightarrow> validateText t role opts = Inl EmptyText)
   \<and> (trim t \<noteq> [] \<and> (wordCount t < opt_minWords opts \<or> opt_maxWords opts < wordCount t) \<longrightarrow>
        validateText t role opts =
          Inl (WordCountOutOfRange (wordCount t) (opt_minWords opts) (opt_maxWords opts)))
   \<and> (trim t \<noteq> [] \<and> opt_minWords opts \<le> wordCount t \<and> wordCount t \<le> opt_maxWords opts
        \<and> requireSentenceCount opts = Some n \<and> sentenceCount t \<noteq> n \<longrightarrow>
        validateText t role opts = Inl (SentenceCountMismatch (sentenceCount t) n))
   \<and> (trim t \<noteq> [] \<and> opt_minWords opts \<le> wordCount t \<and> wordCount t \<le> opt_maxWords opts
        \<and> (\<forall>n. requireSentenceCount opts = Some n \<longrightarrow> sentenceCount t = n)
        \<and> opt_enforceNoImperatives opts
        \<and> (\<exists>s\<in>set (coaching_sentences (trim t)).
              \<exists>start\<in>set DISCOURAGED_IMPERATIVE_STARTS. prefix start s) \<longrightarrow>
        (\<exists>start\<in>set DISCOURAGED_IMPERATIVE_STARTS.
           validateText t role opts = Inl (ImperativeCoaching (trim start))))"
proof -
  have sc: "sentenceCount (trim t) = sentenceCount t"
    by (simp add: sentenceCount_def trim_trim)
  have imp: "validateNoImperativeCoaching (trim t) = Inr () \<longleftrightarrow>
      (\<forall>s\<in>set (coaching_sentences (trim t)).
              \<forall>start\<in>set DISCOURAGED_IMPERATIVE_STARTS. \<not> prefix start s)"
    by (simp add: validateNoImperativeCoaching_def first_imperative_start_None [symmetric]
        split: option.splits)
  have imp2: "\<exists>s\<in>set (coaching_sentences (trim t)).
              \<exists>start\<in>set DISCOURAGED_IMPERATIVE_STARTS. prefix start s \<Longrightarrow>
      \<exists>start\<in>set DISCOURAGED_IMPERATIVE_STARTS.
         validateNoImperativeCoaching (trim t) = Inl (ImperativeCoaching (trim start))"
    using first_imperative_start_None [of "coaching_sentences (trim t)"]
      first_imperative_start_Some [of "coaching_sentences (trim t)"]
    by (auto simp: validateNoImperativeCoaching_def split: option.splits)
  show ?thesis
    using imp imp2
    by (auto simp: validateText_def Let_def wordCount_trim sc split: option.splits)
qed

theorem validateText_verdict_witness:
  "validateText (str ''We go.'') Future
     \<lparr>minWords = Some 2, maxWords = Some 5, requireSentenceCount = Some 1,
      enforceNoImperatives = Some True\<rparr> = Inr ()
   \<and> wordCount (str ''We go on and on. Then we stop.'') = 8
   \<and> validateText (str ''We go on and on. Then we stop.'') Future
     \<lparr>minWords = Some 2, maxWords = Some 5, requireSentenceCount = Some 1,
      enforceNoImperatives = Some True\<rparr> = Inl (WordCountOutOfRange 8 2 5)"
proof -
  let ?o = "\<lparr>minWords = Some 2, maxWords = Some 5, requireSentenceCount = Some 1,
      enforceNoImperatives = Some True\<rparr>"
  have a: "trim (str ''We go.'') \<noteq> []" by code_simp
  have b: "wordCount (str ''We go.'') = 2" by code_simp
  have c: "sentenceCount (str ''We go.'') = 1" by code_simp
  have d: "list_all (\<lambda>s. list_all (\<lambda>start. \<not> prefix start s) DISCOURAGED_IMPERATIVE_STARTS)
             (coaching_sentences (trim (str ''We go.'')))" by code_simp
  have e: "trim (str ''We go on and on. Then we stop.'') \<noteq> []" by code_simp
  have f: "wordCount (str ''We go on and on. Then we stop.'') = 8" by code_simp
  have o: "opt_minWords ?o = 2" "opt_maxWords ?o = 5" "opt_enforceNoImperatives ?o"
    by (simp_all add: opt_minWords_def opt_maxWords_def opt_enforceNoImperatives_def)
  show ?thesis
    using validateText_verdict [of "str ''We go.''" Future ?o 0]
      validateText_verdict [of "str ''We go on and on. Then we stop.''" Future ?o 0]
      a b c d e f o
    by (simp add: list_all_iff)
qed

text \<open>
  The claim as the specification words it fails: a sentence that begins with the lead
  word take followed by a comma is accepted.
\<close>

theorem validateText_lead_word_counterexample:
  "validateText (str ''Take, care.'') Past
     \<lparr>minWords = Some 1, maxWords = None, requireSentenceCount = None,
      enforceNoImperatives = Some True\<rparr> = Inr ()
   \<and> \<not> spec_validateText_accepts (str ''Take, care.'')
     \<lparr>minWords = Some 1, maxWords = None, requireSentenceCount = None,
      enforceNoImperatives = Some True\<rparr>"
  by code_simp

section \<open>Properties of the anchor selector\<close>

lemma nat_mod_less: "0 < n \<Longrightarrow> nat (a mod int n) < n"
  using pos_mod_bound [of "int n" a] pos_mod_sign [of "int n" a] by linarith

lemma second_index_differs:
  assumes "(i::nat) < n" "k < n - 1"
  shows "(i + 1 + k) mod n \<noteq> i" "(i + 1 + k) mod n < n"
proof -
  from assms have "0 < n" by simp
  then show "(i + 1 + k) mod n < n" by simp
  show "(i + 1 + k) mod n \<noteq> i"
  proof (cases "i + 1 + k < n")
    case True
    then show ?thesis by simp
  next
    case False
    then have "(i + 1 + k) mod n = i + 1 + k - n"
      using assms by (simp add: mod_if)
    with False assms show ?thesis by simp
  qed
qed

text \<open>
  Claim C3, as amended. For a canon side with at least two non-empty core statements
  and every seed, \<open>pickCanonAnchors\<close> returns the statements at two different
  positions of the list of non-empty core statements, for two statements as well as for
  the hashed indices of three or more; the two anchors are therefore different strings
  whenever no statement is repeated in that list. The pair depends on nothing but that
  list and the seed.
\<close>

theorem pickCanonAnchors_positions:
  assumes "cs = filter_Boolean (core (if rev_flag then reversed_side m else upright m))"
    and "2 \<le> length cs"
  shows "(\<exists>i j. i < length cs \<and> j < length cs \<and> i \<noteq> j
            \<and> pickCanonAnchors m rev_flag seedKey = [cs ! i, cs ! j])
         \<and> (distinct cs \<longrightarrow>
              pickCanonAnchors m rev_flag seedKey ! 0 \<noteq> pickCanonAnchors m rev_flag seedKey ! 1)
         \<and> (filter_Boolean (core (if rev_flag' then reversed_side m' else upright m')) = cs \<longrightarrow>
              pickCanonAnchors m' rev_flag' seedKey = pickCanonAnchors m rev_flag seedKey)"
proof -
  have unf: "pickCanonAnchors m rev_flag seedKey =
      (if length cs = 0 then [[], []]
       else if length cs = 1 then [cs ! 0, cs ! 0]
       else if length cs = 2 then [cs ! 0, cs ! 1]
       else [cs ! nat (\<bar>seed_hash seedKey\<bar> mod int (length cs)),
             cs ! ((nat (\<bar>seed_hash seedKey\<bar> mod int (length cs)) + 1
                    + nat (\<bar>ToInt32 (seed_hash seedKey) div 256\<bar> mod int (length cs - 1)))
                   mod length cs)])"
    unfolding pickCanonAnchors_def Let_def assms(1) ..
  have pos: "\<exists>i j. i < length cs \<and> j < length cs \<and> i \<noteq> j
            \<and> pickCanonAnchors m rev_flag seedKey = [cs ! i, cs ! j]"
  proof (cases "length cs = 2")
    case True
    then have "pickCanonAnchors m rev_flag seedKey = [cs ! 0, cs ! 1]"
      by (simp add: unf)
    with True show ?thesis by (intro exI [of _ 0] exI [of _ 1]) simp
  next
    case False
    with assms(2) have n3: "3 \<le> length cs" by simp
    define h where "h = seed_hash seedKey"
    define i1 where "i1 = nat (\<bar>h\<bar> mod int (length cs))"
    define k where "k = nat (\<bar>ToInt32 h div 256\<bar> mod int (length cs - 1))"
    define i2 where "i2 = (i1 + 1 + k) mod length cs"
    have i1: "i1 < length cs"
      unfolding i1_def by (rule nat_mod_less) (use n3 in auto)
    have k: "k < length cs - 1"
      unfolding k_def by (rule nat_mod_less) (use n3 in auto)
    have "i2 \<noteq> i1" "i2 < length cs"
      using second_index_differs [OF i1 k] by (simp_all add: i2_def)
    moreover have "pickCanonAnchors m rev_flag seedKey = [cs ! i1, cs ! i2]"
      using n3 by (auto simp add: unf h_def i1_def k_def i2_def)
    ultimately show ?thesis using i1 by metis
  qed
  moreover have "distinct cs \<longrightarrow>
      pickCanonAnchors m rev_flag seedKey ! 0 \<noteq> pickCanonAnchors m rev_flag seedKey ! 1"
    using pos by (auto simp: nth_eq_iff_index_eq)
  moreover have "filter_Boolean (core (if rev_flag' then reversed_side m' else upright m')) = cs \<longrightarrow>
      pickCanonAnchors m' rev_flag' seedKey = pickCanonAnchors m rev_flag seedKey"
    unfolding pickCanonAnchors_def Let_def assms(1) by simp
  ultimately show ?thesis by blast
qed

theorem pickCanonAnchors_positions_witness:
  "2 \<le> length (filter_Boolean (core (upright four_statement_meaning)))
   \<and> distinct (filter_Boolean (core (upright four_statement_meaning)))
   \<and> pickCanonAnchors four_statement_meaning False example_seed ! 0
       \<noteq> pickCanonAnchors four_statement_meaning False example_seed ! 1"
proof -
  let ?cs = "filter_Boolean (core (upright four_statement_meaning))"
  have a: "?cs = filter_Boolean (core (if False then reversed_side four_statement_meaning
                                       else upright four_statement_meaning))"
    by simp
  have b: "2 \<le> length ?cs" by code_simp
  have c: "distinct ?cs" by code_simp
  show ?thesis
    using pickCanonAnchors_positions [OF a b, of example_seed] b c by blast
qed

text \<open>
  The claim as stated asks for two distinct anchors on every side with two or more
  statements; a side that repeats a statement yields the same anchor twice.
\<close>

theorem pickCanonAnchors_equal_counterexample:
  "length (filter_Boolean (core (upright twice_told_meaning))) = 2
   \<and> pickCanonAnchors twice_told_meaning False (example_seed) ! 0
     = pickCanonAnchors twice_told_meaning False (example_seed) ! 1"
  by code_simp

lemma keywordsFromAnchor_empty: "keywordsFromAnchor [] = []"
  by (simp add: keywordsFromAnchor_def toLowerCase_def filter_Boolean_def)

text \<open>
  Claim C5, as amended. When the canon side has no non-empty core statement,
  \<open>pickCanonAnchors\<close> returns two empty anchors, and \<open>scoreAnchorCoverage\<close>
  reports 0 matched of 2 for every candidate text: an anchor without keywords can never
  show the two keyword hits that count as coverage.
\<close>

theorem empty_anchors_never_covered:
  assumes "filter_Boolean (core (if rev_flag then reversed_side m else upright m)) = []"
  shows "pickCanonAnchors m rev_flag seedKey = [[], []]
         \<and> scoreAnchorCoverage t (pickCanonAnchors m rev_flag seedKey) = \<lparr>matched = 0, total = 2\<rparr>"
proof -
  have "pickCanonAnchors m rev_flag seedKey = [[], []]"
    unfolding pickCanonAnchors_def Let_def assms by simp
  then show ?thesis
    by (simp add: scoreAnchorCoverage_def anchor_hitCount_def keywordsFromAnchor_empty)
qed

theorem empty_anchors_never_covered_witness:
  "filter_Boolean (core (reversed_side example_meaning)) = []
   \<and> scoreAnchorCoverage (str ''You faced an old fear.'')
        (pickCanonAnchors example_meaning True example_seed) = \<lparr>matched = 0, total = 2\<rparr>"
proof -
  have a: "filter_Boolean (core (if True then reversed_side example_meaning
                                  else upright example_meaning)) = []"
    by code_simp
  have "scoreAnchorCoverage (str ''You faced an old fear.'')
          (pickCanonAnchors example_meaning True example_seed) = \<lparr>matched = 0, total = 2\<rparr>"
    using empty_anchors_never_covered [OF a] by (rule conjunct2)
  moreover have "filter_Boolean (core (reversed_side example_meaning)) = []"
    using a by simp
  ultimately show ?thesis by (rule conjI [rotated])
qed

text \<open>
  The claim as stated has the coverage check pass on empty anchors; the two counts
  differ.
\<close>

theorem empty_anchors_coverage_counterexample:
  "filter_Boolean (core (reversed_side example_meaning)) = []
   \<and> matched (scoreAnchorCoverage (str ''You faced an old fear.'')
        (pickCanonAnchors example_meaning True example_seed))
     \<noteq> total (scoreAnchorCoverage (str ''You faced an old fear.'')
        (pickCanonAnchors example_meaning True example_seed))"
  by code_simp

section \<open>Properties of the reply parser\<close>

lemma set_Object_keys: "set (Object_keys ms) = fst ` set ms"
  by (auto simp: Object_keys_def Let_def)

lemma no_extra_keys:
  "filter (\<lambda>k. k \<noteq> str ''text'') (Object_keys ms) = [] \<longleftrightarrow> (\<forall>k\<in>fst ` set ms. k = str ''text'')"
  by (simp only: filter_empty_conv set_Object_keys) blast

lemma parseJsonOnly_Inr:
  "parseJsonOnly sem raw = Inr t \<longleftrightarrow>
     (\<exists>i j ms s.
        index_of 123 (trim raw) = Some i \<and> last_index_of 125 (trim raw) = Some j \<and> i < j
        \<and> JSON_parse (slice i (j + 1) (trim raw)) = Some (JObject ms)
        \<and> property ms (str ''text'') = Some (JString s)
        \<and> (\<forall>k\<in>fst ` set ms. k = str ''text'')
        \<and> t = trim s \<and> t \<noteq> [])"
  unfolding parseJsonOnly_def Let_def no_extra_keys [symmetric]
  by (auto split: option.splits json.splits if_splits)

lemma draftAttempt_format_failure:
  assumes "ollamaChat (env c) (calls fx) = Content raw"
    and "parseJsonOnly (syntaxErrorMessage (env c)) raw = Inl e"
  shows "draftAttempt c mem fx =
     (Continue \<lparr>lastErr = Some (message e), lastText = lastText mem\<rparr>, fx\<lparr>calls := calls fx + 1\<rparr>)"
  using assms
  by (simp add: draftAttempt_def draftOnce_def call_generator_def tryDraft_def catchDraft_def)

text \<open>
  Claim C7, as amended. For every generator reply, \<open>parseJsonOnly\<close> succeeds exactly
  when the part of the trimmed reply from its first opening brace to its last closing
  brace is JSON for an object whose value under \<open>text\<close> is a string that is not empty
  once trimmed, and in which no key other than \<open>text\<close> occurs; what stands before the
  first brace or after the last is ignored. Every other reply is an error value, and
  when it is the reply to a draft call the attempt records the message, keeps the last
  text, has made one generator call, and the loop goes on.
\<close>

theorem parseJsonOnly_exact_shape:
  "(parseJsonOnly sem raw = Inr t \<longleftrightarrow>
     (\<exists>i j ms s.
        index_of 123 (trim raw) = Some i \<and> last_index_of 125 (trim raw) = Some j \<and> i < j
        \<and> JSON_parse (slice i (j + 1) (trim raw)) = Some (JObject ms)
        \<and> property ms (str ''text'') = Some (JString s)
        \<and> (\<forall>k\<in>fst ` set ms. k = str ''text'')
        \<and> t = trim s \<and> t \<noteq> []))
   \<and> (ollamaChat (env c) (calls fx) = Content raw
        \<and> parseJsonOnly (syntaxErrorMessage (env c)) raw = Inl e \<longrightarrow>
      draftAttempt c mem fx =
        (Continue \<lparr>lastErr = Some (message e), lastText = lastText mem\<rparr>,
         fx\<lparr>calls := calls fx + 1\<rparr>))"
  using parseJsonOnly_Inr [of sem raw t] draftAttempt_format_failure [of c fx raw e mem]
  by blast

theorem parseJsonOnly_exact_shape_witness:
  \<open>parseJsonOnly (syntaxErrorMessage (env (example_ctx script_extra_key)))
      (str ''{"text":"so it is","extra":1}'') = Inl (ExtraKeys [str ''extra''])
   \<and> draftAttempt (example_ctx script_extra_key) \<lparr>lastErr = None, lastText = None\<rparr>
        \<lparr>calls = 0, warnings = []\<rparr>
     = (Continue \<lparr>lastErr = Some (str ''Extra JSON keys not allowed: extra''), lastText = None\<rparr>,
        \<lparr>calls = 1, warnings = []\<rparr>)\<close>
proof -
  let ?c = "example_ctx script_extra_key"
  let ?raw = \<open>str ''{"text":"so it is","extra":1}''\<close>
  have a: "ollamaChat (env ?c) (calls \<lparr>calls = 0, warnings = []\<rparr>) = Content ?raw"
    by code_simp
  have b: "parseJsonOnly (syntaxErrorMessage (env ?c)) ?raw = Inl (ExtraKeys [str ''extra''])"
    by code_simp
  have m: "message (ExtraKeys [str ''extra'']) = str ''Extra JSON keys not allowed: extra''"
    by code_simp
  have "draftAttempt ?c \<lparr>lastErr = None, lastText = None\<rparr> \<lparr>calls = 0, warnings = []\<rparr> =
      (Continue \<lparr>lastErr = Some (message (ExtraKeys [str ''extra''])),
                 lastText = lastText \<lparr>lastErr = None, lastText = None\<rparr>\<rparr>,
       \<lparr>calls = 0, warnings = []\<rparr>\<lparr>calls := calls \<lparr>calls = 0, warnings = []\<rparr> + 1\<rparr>)"
    using parseJsonOnly_exact_shape [THEN conjunct2, rule_format, OF conjI, OF a b] .
  then have "draftAttempt ?c \<lparr>lastErr = None, lastText = None\<rparr> \<lparr>calls = 0, warnings = []\<rparr> =
      (Continue \<lparr>lastErr = Some (str ''Extra JSON keys not allowed: extra''), lastText = None\<rparr>,
       \<lparr>calls = 1, warnings = []\<rparr>)"
    unfolding m by simp
  with b show ?thesis by (rule conjI)
qed

text \<open>
  The claim as stated lets through none but JSON-only replies; a reply that wraps the
  object in prose is no JSON text and is parsed all the same.
\<close>

theorem parseJsonOnly_wrapped_counterexample:
  \<open>parseJsonOnly (\<lambda>s. str ''Unexpected token'') (str ''Here you go: {"text": "so it is"} Enjoy!'')
     = Inr (str ''so it is'')
   \<and> JSON_parse (str ''Here you go: {"text": "so it is"} Enjoy!'') = None\<close>
  by code_simp

section \<open>Properties of the orchestrator\<close>

subsection \<open>Every returned text has passed the hard gate\<close>

lemma softRepairRounds_Accepted:
  "softRepairRounds c n w fx = (Inr (Accepted w'), fx') \<Longrightarrow> hardGate c w' = Inr ()"
proof (induction n arbitrary: w fx)
  case 0
  then show ?case by simp
next
  case (Suc n)
  then show ?case
    by (auto simp: Let_def split: prod.splits reply.splits sum.splits if_splits)
qed

lemma softRepairRounds_Unfinished:
  "softRepairRounds c n w fx = (Inr (Unfinished w'), fx') \<Longrightarrow> hardGate c w = Inr ()
   \<Longrightarrow> hardGate c w' = Inr ()"
proof (induction n arbitrary: w fx)
  case 0
  then show ?case by simp
next
  case (Suc n)
  then show ?case
    by (auto simp: Let_def split: prod.splits reply.splits sum.splits if_splits)
qed

lemma tryDraft_Return:
  assumes "tryDraft c raw fx = (Return t, fx')"
  shows "hardGate c t = Inr ()"
  using assms
  by (auto simp: tryDraft_def Let_def
      split: sum.splits bool.splits prod.splits soft_result.splits if_splits
      dest: softRepairRounds_Accepted softRepairRounds_Unfinished)

lemma lengthRepair_Inr:
  "lengthRepair c t fx = (Inr rt, fx') \<Longrightarrow> hardGate c rt = Inr ()"
  by (auto simp: lengthRepair_def Let_def split: prod.splits reply.splits sum.splits)

lemma catchDraft_Finished:
  "catchDraft c mem t e fx = (Finished (Inr out), fx') \<Longrightarrow>
     \<exists>t'. out = make_output c t' \<and> hardGate c t' = Inr ()"
  by (auto simp: catchDraft_def Let_def
      split: prod.splits sum.splits if_splits dest: lengthRepair_Inr)

lemma draftAttempt_Finished:
  "draftAttempt c mem fx = (Finished (Inr out), fx') \<Longrightarrow>
     \<exists>t'. out = make_output c t' \<and> hardGate c t' = Inr ()"
  by (auto simp: draftAttempt_def
      split: prod.splits reply.splits try_result.splits
      dest: tryDraft_Return catchDraft_Finished)

lemma draftAttempts_Finished:
  "draftAttempts c n mem fx = (Finished (Inr out), fx') \<Longrightarrow>
     \<exists>t'. out = make_output c t' \<and> hardGate c t' = Inr ()"
proof (induction n arbitrary: mem fx)
  case 0
  then show ?case by simp
next
  case (Suc n)
  then show ?case
    by (auto split: prod.splits attempt_result.splits dest: draftAttempt_Finished)
qed

lemma finalFallback_Inr:
  "finalFallback c mem fx = (Inr out, fx') \<Longrightarrow>
     \<exists>t'. out = make_output c t' \<and> hardGate c t' = Inr ()"
  by (auto simp: finalFallback_def Let_def
      split: option.splits prod.splits reply.splits sum.splits if_splits)

lemma generateCardMessage_loop:
  assumes "roleFromIdKey (idKey inp) = Inr role" "loadMajorMeaning e (cardId inp) = Inr meaning"
  shows "generateCardMessage e inp =
      (case draftAttempts (build_ctx e inp role meaning) MAX_DRAFT_ATTEMPTS
              \<lparr>lastErr = None, lastText = None\<rparr> \<lparr>calls = 0, warnings = []\<rparr> of
        (Finished r, fx1) \<Rightarrow> (r, fx1)
      | (Continue mem, fx1) \<Rightarrow> finalFallback (build_ctx e inp role meaning) mem fx1)"
  unfolding generateCardMessage_def Let_def by (simp add: assms)

lemma generateCardMessage_Inr:
  assumes "generateCardMessage e inp = (Inr out, fx)"
  shows "\<exists>role meaning t. roleFromIdKey (idKey inp) = Inr role
           \<and> loadMajorMeaning e (cardId inp) = Inr meaning
           \<and> out = make_output (build_ctx e inp role meaning) t
           \<and> hardGate (build_ctx e inp role meaning) t = Inr ()"
proof -
  from assms obtain role meaning where
    role: "roleFromIdKey (idKey inp) = Inr role"
    and meaning: "loadMajorMeaning e (cardId inp) = Inr meaning"
    by (auto simp: generateCardMessage_def Let_def split: sum.splits)
  define c where "c = build_ctx e inp role meaning"
  from assms have
    "(case draftAttempts c MAX_DRAFT_ATTEMPTS \<lparr>lastErr = None, lastText = None\<rparr>
             \<lparr>calls = 0, warnings = []\<rparr> of
        (Finished r, fx1) \<Rightarrow> (r, fx1)
      | (Continue mem, fx1) \<Rightarrow> finalFallback c mem fx1) = (Inr out, fx)"
    unfolding generateCardMessage_loop [OF role meaning] c_def .
  then have "\<exists>t. out = make_output c t \<and> hardGate c t = Inr ()"
    by (auto split: prod.splits attempt_result.splits
        dest: draftAttempts_Finished finalFallback_Inr)
  with role meaning show ?thesis unfolding c_def by blast
qed

lemma hard_options_eq:
  "hard_options = \<lparr>minWords = Some 75, maxWords = Some 150, requireSentenceCount = None,
                   enforceNoImperatives = Some True\<rparr>"
  by (simp add: hard_options_def MIN_WORDS_def MAX_WORDS_def)

text \<open>
  Claim C1. Whatever the environment and the request, \<open>generateCardMessage\<close> gives one
  error or one result, and the text of a result passes the hard gate: \<open>validateText\<close>
  with \<open>minWords\<close> 75, \<open>maxWords\<close> 150 and \<open>enforceNoImperatives\<close> accepts it, for the
  role of the request. This covers every return of the function.
\<close>

theorem generateCardMessage_hard_gate:
  assumes "generateCardMessage e inp = (Inr out, fx)"
  shows "\<exists>role. roleFromIdKey (idKey inp) = Inr role
           \<and> validateText (text_out out) role
                \<lparr>minWords = Some 75, maxWords = Some 150, requireSentenceCount = None,
                 enforceNoImperatives = Some True\<rparr> = Inr ()"
  using generateCardMessage_Inr [OF assms]
  by (auto simp: hardGate_def build_ctx_def make_output_def hard_options_eq)

lemma example_run:
  "generateCardMessage (example_environment script_short_then_long clock) example_input =
     (Inr \<lparr>key = str ''ppf|past-3|ppf:growth:healing|2.TheEnchantress|u'', text_out = filler 75,
           createdAtISO = clock\<rparr>,
      \<lparr>calls = 2, warnings = []\<rparr>)"
  by code_simp

theorem generateCardMessage_hard_gate_witness:
  "generateCardMessage (example_environment script_short_then_long (str ''2025-01-01T00:00:00.000Z''))
      example_input =
     (Inr \<lparr>key = str ''ppf|past-3|ppf:growth:healing|2.TheEnchantress|u'', text_out = filler 75,
           createdAtISO = str ''2025-01-01T00:00:00.000Z''\<rparr>,
      \<lparr>calls = 2, warnings = []\<rparr>)
   \<and> roleFromIdKey (idKey example_input) = Inr Past
   \<and> validateText (filler 75) Past
        \<lparr>minWords = Some 75, maxWords = Some 150, requireSentenceCount = None,
         enforceNoImperatives = Some True\<rparr> = Inr ()"
proof -
  have r: "roleFromIdKey (idKey example_input) = Inr Past" by code_simp
  show ?thesis
    using generateCardMessage_hard_gate [OF example_run [of "str ''2025-01-01T00:00:00.000Z''"]]
      example_run [of "str ''2025-01-01T00:00:00.000Z''"] r
    by auto
qed

subsection \<open>The key, the generator and the clock\<close>

lemma join_makeKey:
  "makeKey inp =
     join (str ''|'') [spreadId inp, idKey inp, intentionId inp, cardId inp,
                      if reversed inp then str ''r'' else str ''u'']"
  by (simp add: makeKey_def)

text \<open>A context whose environment has another clock.\<close>

lemma clock_make_output:
  "make_output (c\<lparr>env := (env c)\<lparr>now := t\<rparr>\<rparr>) x = (make_output c x)\<lparr>createdAtISO := t\<rparr>"
  by (simp add: make_output_def)

lemma clock_hardGate: "hardGate (c\<lparr>env := (env c)\<lparr>now := t\<rparr>\<rparr>) x = hardGate c x"
  by (simp add: hardGate_def)

lemma clock_softRepairRounds:
  "softRepairRounds (c\<lparr>env := (env c)\<lparr>now := t\<rparr>\<rparr>) n w fx = softRepairRounds c n w fx"
  by (induction n arbitrary: w fx)
     (simp_all add: repairRewrite_def call_generator_def clock_hardGate Let_def
        split: prod.splits reply.splits sum.splits)

lemma clock_tryDraft: "tryDraft (c\<lparr>env := (env c)\<lparr>now := t\<rparr>\<rparr>) raw fx = tryDraft c raw fx"
  by (simp add: tryDraft_def needsRepair_def clock_hardGate clock_softRepairRounds Let_def
      split: prod.splits sum.splits bool.splits soft_result.splits)

lemma clock_lengthRepair:
  "lengthRepair (c\<lparr>env := (env c)\<lparr>now := t\<rparr>\<rparr>) x fx = lengthRepair c x fx"
  by (simp add: lengthRepair_def microRepairForLength_def call_generator_def clock_hardGate
      Let_def split: prod.splits reply.splits sum.splits)

lemma clock_catchDraft:
  "catchDraft (c\<lparr>env := (env c)\<lparr>now := t\<rparr>\<rparr>) mem x e fx
     = map_prod (stamp_attempt t) id (catchDraft c mem x e fx)"
  by (simp add: catchDraft_def clock_lengthRepair clock_make_output stamp_attempt_def stamp_def
      Let_def split: prod.splits sum.splits)

lemma clock_draftAttempt:
  "draftAttempt (c\<lparr>env := (env c)\<lparr>now := t\<rparr>\<rparr>) mem fx
     = map_prod (stamp_attempt t) id (draftAttempt c mem fx)"
  by (simp add: draftAttempt_def draftOnce_def call_generator_def clock_tryDraft clock_catchDraft
      clock_make_output stamp_attempt_def stamp_def
      split: prod.splits reply.splits try_result.splits)

lemma clock_draftAttempts:
  "draftAttempts (c\<lparr>env := (env c)\<lparr>now := t\<rparr>\<rparr>) n mem fx
     = map_prod (stamp_attempt t) id (draftAttempts c n mem fx)"
proof (induction n arbitrary: mem fx)
  case 0
  show ?case by (simp add: stamp_attempt_def)
next
  case (Suc n)
  show ?case
    by (simp add: clock_draftAttempt Suc stamp_attempt_def
        split: prod.splits attempt_result.splits)
qed

lemma clock_finalFallback:
  "finalFallback (c\<lparr>env := (env c)\<lparr>now := t\<rparr>\<rparr>) mem fx
     = map_prod (stamp t) id (finalFallback c mem fx)"
  by (simp add: finalFallback_def microRepairForLength_def call_generator_def clock_hardGate
      clock_make_output stamp_def Let_def
      split: option.splits prod.splits reply.splits sum.splits)

lemma clock_build_ctx:
  "build_ctx (e\<lparr>now := t\<rparr>) inp role meaning = (build_ctx e inp role meaning)
     \<lparr>env := (env (build_ctx e inp role meaning))\<lparr>now := t\<rparr>\<rparr>"
  by (simp add: build_ctx_def)

lemma clock_generateCardMessage:
  "generateCardMessage (e\<lparr>now := t\<rparr>) inp = map_prod (stamp t) id (generateCardMessage e inp)"
proof (cases "roleFromIdKey (idKey inp)")
  case (Inl err)
  then show ?thesis by (simp add: generateCardMessage_def stamp_def)
next
  case role: (Inr role)
  show ?thesis
  proof (cases "loadMajorMeaning e (cardId inp)")
    case (Inl err)
    with role show ?thesis by (simp add: generateCardMessage_def stamp_def)
  next
    case (Inr meaning)
    then have m': "loadMajorMeaning (e\<lparr>now := t\<rparr>) (cardId inp) = Inr meaning" by simp
    show ?thesis
      unfolding generateCardMessage_loop [OF role Inr] generateCardMessage_loop [OF role m']
        clock_build_ctx clock_draftAttempts
      by (simp add: clock_finalFallback stamp_attempt_def
          split: prod.splits attempt_result.splits)
  qed
qed

text \<open>
  Claim C9. The key of a result is the \<open>|\<close>-joined tuple of \<open>spreadId\<close>, \<open>idKey\<close>,
  \<open>intentionId\<close>, \<open>cardId\<close> and the orientation flag \<open>r\<close> or \<open>u\<close>, whatever the
  generator replies. Two runs on the same request whose environments agree on the canon
  store, on the scripted replies and on the wording of syntax errors (they may differ in
  the clock) end alike: both fail with the same error, or both return the same key and
  text; and they make the same generator calls and write the same warnings.
\<close>

theorem generateCardMessage_key:
  "(generateCardMessage e inp = (Inr out, fx) \<longrightarrow>
      key out = join (str ''|'') [spreadId inp, idKey inp, intentionId inp, cardId inp,
                                  if reversed inp then str ''r'' else str ''u''])
   \<and> (loadMajorMeaning e' = loadMajorMeaning e \<and> ollamaChat e' = ollamaChat e
        \<and> syntaxErrorMessage e' = syntaxErrorMessage e \<longrightarrow>
      snd (generateCardMessage e' inp) = snd (generateCardMessage e inp)
      \<and> map_sum id (\<lambda>out. (key out, text_out out)) (fst (generateCardMessage e' inp))
          = map_sum id (\<lambda>out. (key out, text_out out)) (fst (generateCardMessage e inp)))"
proof (intro conjI impI)
  assume "generateCardMessage e inp = (Inr out, fx)"
  from generateCardMessage_Inr [OF this]
  show "key out = join (str ''|'') [spreadId inp, idKey inp, intentionId inp, cardId inp,
                                  if reversed inp then str ''r'' else str ''u'']"
    by (auto simp: make_output_def build_ctx_def join_makeKey)
next
  assume same: "loadMajorMeaning e' = loadMajorMeaning e \<and> ollamaChat e' = ollamaChat e
        \<and> syntaxErrorMessage e' = syntaxErrorMessage e"
  then have e': "e' = e\<lparr>now := now e'\<rparr>" by simp
  have run: "generateCardMessage e' inp = map_prod (stamp (now e')) id (generateCardMessage e inp)"
    by (subst e') (rule clock_generateCardMessage)
  show "snd (generateCardMessage e' inp) = snd (generateCardMessage e inp)"
    by (simp add: run)
  show "map_sum id (\<lambda>out. (key out, text_out out)) (fst (generateCardMessage e' inp))
          = map_sum id (\<lambda>out. (key out, text_out out)) (fst (generateCardMessage e inp))"
    by (cases "fst (generateCardMessage e inp)") (simp_all add: run stamp_def)
qed

theorem generateCardMessage_key_witness:
  "generateCardMessage (example_environment script_short_then_long (str ''2025-01-01T00:00:00.000Z''))
      example_input =
     (Inr \<lparr>key = str ''ppf|past-3|ppf:growth:healing|2.TheEnchantress|u'', text_out = filler 75,
           createdAtISO = str ''2025-01-01T00:00:00.000Z''\<rparr>,
      \<lparr>calls = 2, warnings = []\<rparr>)
   \<and> str ''ppf|past-3|ppf:growth:healing|2.TheEnchantress|u''
     = join (str ''|'') [spreadId example_input, idKey example_input, intentionId example_input,
          cardId example_input, if reversed example_input then str ''r'' else str ''u'']
   \<and> map_sum id (\<lambda>out. (key out, text_out out))
        (fst (generateCardMessage
               (example_environment script_short_then_long (str ''2026-06-30T12:00:00.000Z''))
               example_input))
     = Inr (str ''ppf|past-3|ppf:growth:healing|2.TheEnchantress|u'', filler 75)"
proof -
  let ?e = "example_environment script_short_then_long (str ''2025-01-01T00:00:00.000Z'')"
  let ?e' = "example_environment script_short_then_long (str ''2026-06-30T12:00:00.000Z'')"
  note run = example_run [of "str ''2025-01-01T00:00:00.000Z''"]
  have same: "loadMajorMeaning ?e' = loadMajorMeaning ?e \<and> ollamaChat ?e' = ollamaChat ?e
        \<and> syntaxErrorMessage ?e' = syntaxErrorMessage ?e"
    by (simp add: example_environment_def)
  have k: "key \<lparr>key = str ''ppf|past-3|ppf:growth:healing|2.TheEnchantress|u'',
                 text_out = filler 75, createdAtISO = str ''2025-01-01T00:00:00.000Z''\<rparr>
      = join (str ''|'') [spreadId example_input, idKey example_input, intentionId example_input,
          cardId example_input, if reversed example_input then str ''r'' else str ''u'']"
    using generateCardMessage_key [of ?e example_input, THEN conjunct1, rule_format, OF run] .
  have "map_sum id (\<lambda>out. (key out, text_out out)) (fst (generateCardMessage ?e' example_input))
          = map_sum id (\<lambda>out. (key out, text_out out)) (fst (generateCardMessage ?e example_input))"
    using generateCardMessage_key [of ?e example_input _ _ ?e', THEN conjunct2, rule_format, OF same]
    by (rule conjunct2)
  then have "map_sum id (\<lambda>out. (key out, text_out out)) (fst (generateCardMessage ?e' example_input))
      = Inr (str ''ppf|past-3|ppf:growth:healing|2.TheEnchantress|u'', filler 75)"
    unfolding run by simp
  with run k show ?thesis by simp
qed

subsection \<open>The catch block and the length-repair chain\<close>

lemma decimal_digits: "decimal n \<noteq> [] \<and> (\<forall>c\<in>set (decimal n). is_digit c)"
proof (induction n rule: decimal.induct)
  case (1 n)
  show ?case
  proof (cases "n < 10")
    case True
    then show ?thesis by (subst (1 2) decimal.simps) (simp add: is_digit_def)
  next
    case False
    have "int (n mod 10) < 10" by simp
    with False 1 show ?thesis
      by (subst (1 2) decimal.simps) (simp add: is_digit_def)
  qed
qed

lemma digit_not_ws: "is_digit c \<Longrightarrow> \<not> is_ws c"
  by (auto simp: is_digit_def is_ws_def)

lemma rx_plus_decimal:
  assumes "X = [] \<or> \<not> is_digit (hd X)"
  shows "rx_plus is_digit (decimal n @ X) = Some X"
proof -
  obtain d ds where d: "decimal n = d # ds"
    using decimal_digits [of n] by (cases "decimal n") auto
  have all: "\<forall>c\<in>set (decimal n). is_digit c" using decimal_digits by blast
  have "dropWhile is_digit (decimal n @ X) = dropWhile is_digit X"
    using all by (simp add: dropWhile_append)
  also have "\<dots> = X" using assms by (cases X) auto
  finally show ?thesis using d all by (simp add: rx_plus_def)
qed

lemma rx_plus_space_decimal: "rx_plus is_ws (32 # decimal n @ X) = Some (decimal n @ X)"
proof -
  obtain d ds where d: "decimal n = d # ds"
    using decimal_digits [of n] by (cases "decimal n") auto
  then have "is_digit d" using decimal_digits [of n] by simp
  then have "\<not> is_ws d" by (rule digit_not_ws)
  moreover have "is_ws 32" by (simp add: is_ws_def)
  ultimately show ?thesis by (simp add: rx_plus_def d)
qed

lemma isWordCountError_WordCountOutOfRange:
  "isWordCountError (message (WordCountOutOfRange wc lo hi))"
proof -
  let ?tail3 = "decimal hi @ str ''.''"
  let ?tail2 = "decimal lo @ 8211 # ?tail3"
  let ?tail1 = "decimal wc @ 32 # str ''outside'' @ 32 # ?tail2"
  have msg: "message (WordCountOutOfRange wc lo hi) = str ''Word count'' @ 32 # ?tail1"
    by (simp add: message_def str_def)
  have s1: "rx_literal (str ''word count'') (str ''Word count'' @ 32 # ?tail1) = Some (32 # ?tail1)"
    by (simp add: rx_literal_def str_def ascii_lower_def)
  have s2: "rx_plus is_ws (32 # ?tail1) = Some ?tail1"
    by (rule rx_plus_space_decimal)
  have s3: "rx_plus is_digit ?tail1 = Some (32 # str ''outside'' @ 32 # ?tail2)"
    by (rule rx_plus_decimal) (simp add: is_digit_def)
  have s4: "rx_plus is_ws (32 # str ''outside'' @ 32 # ?tail2) = Some (str ''outside'' @ 32 # ?tail2)"
    by (simp add: rx_plus_def str_def is_ws_def)
  have s5: "rx_literal (str ''outside'') (str ''outside'' @ 32 # ?tail2) = Some (32 # ?tail2)"
    by (simp add: rx_literal_def str_def ascii_lower_def)
  have s6: "rx_plus is_ws (32 # ?tail2) = Some ?tail2"
    by (rule rx_plus_space_decimal)
  have s7: "rx_plus is_digit ?tail2 = Some (8211 # ?tail3)"
    by (rule rx_plus_decimal) (simp add: is_digit_def)
  have s8: "rx_literal [8211] (8211 # ?tail3) = Some ?tail3"
    by (simp add: rx_literal_def ascii_lower_def)
  have s9: "rx_plus is_digit ?tail3 = Some (str ''.'')"
    by (rule rx_plus_decimal) (simp add: is_digit_def str_def)
  have "wordcount_pattern (str ''Word count'' @ 32 # ?tail1)"
    unfolding wordcount_pattern_def s1 s2 s3 s4 s5 s6 s7 s8 s9 Option.bind.simps by simp
  moreover have "str ''Word count'' @ 32 # ?tail1 = 87 # (str ''ord count'' @ 32 # ?tail1)"
    by (simp add: str_def)
  ultimately show ?thesis
    unfolding isWordCountError_def msg by (metis rx_search.simps(2))
qed

lemma other_hard_errors_not_wordcount:
  "\<not> isWordCountError (message EmptyText)"
  "\<forall>start\<in>set DISCOURAGED_IMPERATIVE_STARTS.
     \<not> isWordCountError (message (ImperativeCoaching (trim start)))"
proof -
  show "\<not> isWordCountError (message EmptyText)" by code_simp
  have "list_all (\<lambda>start. \<not> isWordCountError (message (ImperativeCoaching (trim start))))
          DISCOURAGED_IMPERATIVE_STARTS"
    by code_simp
  then show "\<forall>start\<in>set DISCOURAGED_IMPERATIVE_STARTS.
     \<not> isWordCountError (message (ImperativeCoaching (trim start)))"
    by (simp add: list_all_iff)
qed

lemma hardGate_errors:
  assumes "hardGate c w = Inl e"
  shows "(\<exists>wc. e = WordCountOutOfRange wc MIN_WORDS MAX_WORDS) \<or> e = EmptyText
         \<or> (\<exists>start\<in>set DISCOURAGED_IMPERATIVE_STARTS. e = ImperativeCoaching (trim start))"
  using assms first_imperative_start_Some [of "coaching_sentences (trim w)"]
  by (auto simp: hardGate_def validateText_def hard_options_def Let_def opt_minWords_def
      opt_maxWords_def opt_enforceNoImperatives_def validateNoImperativeCoaching_def
      split: if_splits option.splits)

lemma hardGate_isWordCountError:
  assumes "hardGate c w = Inl e"
  shows "isWordCountError (message e) \<longleftrightarrow> (\<exists>wc. e = WordCountOutOfRange wc MIN_WORDS MAX_WORDS)"
  using hardGate_errors [OF assms] other_hard_errors_not_wordcount
    isWordCountError_WordCountOutOfRange
  by auto

lemma tryDraft_first_gate:
  "parseJsonOnly (syntaxErrorMessage (env c)) raw = Inr t \<Longrightarrow> hardGate c t = Inl e \<Longrightarrow>
     tryDraft c raw fx = (Thrown t e, fx)"
  by (simp add: tryDraft_def)

lemma lengthRepair_Inr_iff:
  "lengthRepair c t fx1 = (Inr rt, fx2) \<longleftrightarrow>
     (\<exists>repairedRaw parsed.
        ollamaChat (env c) (calls fx1) = Content repairedRaw
        \<and> parseJsonOnly (syntaxErrorMessage (env c)) repairedRaw = Inr parsed
        \<and> rt = padSentence3ToMinWords parsed (role_of c)
                 (extractThemesFromCanonLines (canonLines c))
                 (intentionQuote (intentionText (request c))) MIN_WORDS
        \<and> hardGate c rt = Inr ()
        \<and> fx2 = fx1\<lparr>calls := calls fx1 + 1\<rparr>)"
  by (auto simp: lengthRepair_def microRepairForLength_def call_generator_def Let_def
      split: reply.splits sum.splits)

lemma catchDraft_nonempty:
  assumes "t \<noteq> []"
  shows "catchDraft c mem t e fx =
     (if isWordCountError (message e)
      then (case lengthRepair c t fx of
              (Inr rt, fx2) \<Rightarrow> (Finished (Inr (make_output c rt)), fx2)
            | (Inl e2, fx2) \<Rightarrow>
                (Continue \<lparr>lastErr = Some (str ''Micro-repair failed: '' @ message e2),
                           lastText = Some t\<rparr>, fx2))
      else (Continue \<lparr>lastErr = Some (message e), lastText = Some t\<rparr>, fx))"
  unfolding catchDraft_def Let_def using assms by (simp split: prod.splits sum.splits)

text \<open>
  Claim C6, as amended. In a draft attempt whose reply parsed to a text, let the body of
  the \<open>try\<close> throw. The attempt runs the length-repair chain exactly when the message of
  the thrown error matches the word-count pattern; among the failures of the hard gate
  that is exactly the word-count error, and a hard-gate failure of the draft is always
  thrown. The chain is one micro-repair call, its reply parsed, padded in code to the
  minimum, and the hard gate again; the attempt returns the repaired text at once when
  the chain succeeds, and records the chain's error and the draft when it fails. After
  any other failure the attempt records the error and the draft, and the loop continues.
\<close>

theorem draftAttempt_failure_handling:
  assumes "ollamaChat (env c) (calls fx) = Content raw"
    and "parseJsonOnly (syntaxErrorMessage (env c)) raw = Inr t"
  shows
    "(tryDraft c raw (fx\<lparr>calls := calls fx + 1\<rparr>) = (Thrown t e, fx1) \<longrightarrow>
        draftAttempt c mem fx =
          (if isWordCountError (message e)
           then (case lengthRepair c t fx1 of
                   (Inr rt, fx2) \<Rightarrow> (Finished (Inr (make_output c rt)), fx2)
                 | (Inl e2, fx2) \<Rightarrow>
                     (Continue \<lparr>lastErr = Some (str ''Micro-repair failed: '' @ message e2),
                                lastText = Some t\<rparr>, fx2))
           else (Continue \<lparr>lastErr = Some (message e), lastText = Some t\<rparr>, fx1)))
     \<and> (hardGate c t = Inl e \<longrightarrow>
          tryDraft c raw (fx\<lparr>calls := calls fx + 1\<rparr>)
            = (Thrown t e, fx\<lparr>calls := calls fx + 1\<rparr>))
     \<and> (hardGate c w = Inl e \<longrightarrow>
          (isWordCountError (message e)
             \<longleftrightarrow> (\<exists>wc. e = WordCountOutOfRange wc MIN_WORDS MAX_WORDS)))
     \<and> (lengthRepair c t fx1 = (Inr rt, fx2) \<longleftrightarrow>
          (\<exists>repairedRaw parsed.
             ollamaChat (env c) (calls fx1) = Content repairedRaw
             \<and> parseJsonOnly (syntaxErrorMessage (env c)) repairedRaw = Inr parsed
             \<and> rt = padSentence3ToMinWords parsed (role_of c)
                      (extractThemesFromCanonLines (canonLines c))
                      (intentionQuote (intentionText (request c))) MIN_WORDS
             \<and> hardGate c rt = Inr ()
             \<and> fx2 = fx1\<lparr>calls := calls fx1 + 1\<rparr>))"
proof (intro conjI impI)
  have nonempty: "t \<noteq> []"
    using assms(2) by (auto simp: parseJsonOnly_Inr)
  assume thrown: "tryDraft c raw (fx\<lparr>calls := calls fx + 1\<rparr>) = (Thrown t e, fx1)"
  have "draftAttempt c mem fx = catchDraft c mem t e fx1"
    using thrown assms(1) by (simp add: draftAttempt_def draftOnce_def call_generator_def)
  then show "draftAttempt c mem fx =
          (if isWordCountError (message e)
           then (case lengthRepair c t fx1 of
                   (Inr rt, fx2) \<Rightarrow> (Finished (Inr (make_output c rt)), fx2)
                 | (Inl e2, fx2) \<Rightarrow>
                     (Continue \<lparr>lastErr = Some (str ''Micro-repair failed: '' @ message e2),
                                lastText = Some t\<rparr>, fx2))
           else (Continue \<lparr>lastErr = Some (message e), lastText = Some t\<rparr>, fx1))"
    by (simp only: catchDraft_nonempty [OF nonempty])
next
  assume "hardGate c t = Inl e"
  then show "tryDraft c raw (fx\<lparr>calls := calls fx + 1\<rparr>)
            = (Thrown t e, fx\<lparr>calls := calls fx + 1\<rparr>)"
    by (rule tryDraft_first_gate [OF assms(2)])
next
  assume "hardGate c w = Inl e"
  then show "isWordCountError (message e)
             \<longleftrightarrow> (\<exists>wc. e = WordCountOutOfRange wc MIN_WORDS MAX_WORDS)"
    by (rule hardGate_isWordCountError)
next
  show "lengthRepair c t fx1 = (Inr rt, fx2) \<longleftrightarrow>
          (\<exists>repairedRaw parsed.
             ollamaChat (env c) (calls fx1) = Content repairedRaw
             \<and> parseJsonOnly (syntaxErrorMessage (env c)) repairedRaw = Inr parsed
             \<and> rt = padSentence3ToMinWords parsed (role_of c)
                      (extractThemesFromCanonLines (canonLines c))
                      (intentionQuote (intentionText (request c))) MIN_WORDS
             \<and> hardGate c rt = Inr ()
             \<and> fx2 = fx1\<lparr>calls := calls fx1 + 1\<rparr>)"
    by (rule lengthRepair_Inr_iff)
qed

theorem draftAttempt_failure_handling_witness:
  "hardGate (example_ctx script_short_then_long) (str ''too short'')
     = Inl (WordCountOutOfRange 2 MIN_WORDS MAX_WORDS)
   \<and> isWordCountError (message (WordCountOutOfRange 2 MIN_WORDS MAX_WORDS))
   \<and> draftAttempt (example_ctx script_short_then_long) \<lparr>lastErr = None, lastText = None\<rparr>
        \<lparr>calls = 0, warnings = []\<rparr>
     = (Finished (Inr (make_output (example_ctx script_short_then_long) (filler 75))),
        \<lparr>calls = 2, warnings = []\<rparr>)"
proof -
  let ?c = "example_ctx script_short_then_long"
  let ?fx = "\<lparr>calls = 0, warnings = []\<rparr>"
  let ?e = "WordCountOutOfRange 2 MIN_WORDS MAX_WORDS"
  have a: "ollamaChat (env ?c) (calls ?fx) = Content (json_reply (str ''too short''))"
    by code_simp
  have b: "parseJsonOnly (syntaxErrorMessage (env ?c)) (json_reply (str ''too short''))
             = Inr (str ''too short'')"
    by code_simp
  have g: "hardGate ?c (str ''too short'') = Inl ?e"
    by code_simp
  have l: "lengthRepair ?c (str ''too short'') (?fx\<lparr>calls := calls ?fx + 1\<rparr>)
             = (Inr (filler 75), \<lparr>calls = 2, warnings = []\<rparr>)"
    by code_simp
  note inst = draftAttempt_failure_handling [OF a b]
  have thrown: "tryDraft ?c (json_reply (str ''too short'')) (?fx\<lparr>calls := calls ?fx + 1\<rparr>)
      = (Thrown (str ''too short'') ?e, ?fx\<lparr>calls := calls ?fx + 1\<rparr>)"
    using inst [THEN conjunct2, THEN conjunct1, rule_format, OF g] .
  have wce: "isWordCountError (message ?e)"
    using inst [THEN conjunct2, THEN conjunct2, THEN conjunct1, rule_format, OF g] by blast
  have "draftAttempt ?c \<lparr>lastErr = None, lastText = None\<rparr> ?fx =
      (Finished (Inr (make_output ?c (filler 75))), \<lparr>calls = 2, warnings = []\<rparr>)"
    using inst [THEN conjunct1, rule_format, OF thrown, of "\<lparr>lastErr = None, lastText = None\<rparr>"]
    unfolding l using wce by simp
  with g wce show ?thesis by blast
qed

text \<open>
  The claim as stated ties the chain to a word-count failure of the hard gate. Here the
  draft passes the hard gate, its rewrite is rejected for an extra key, and the chain
  runs all the same: the attempt makes a third generator call and returns.
\<close>

theorem draftAttempt_chain_counterexample:
  "hardGate (example_ctx script_pattern_key) (filler 75) = Inr ()
   \<and> tryDraft (example_ctx script_pattern_key) (json_reply (filler 75))
        \<lparr>calls = 1, warnings = []\<rparr>
     = (Thrown (filler 75) (ExtraKeys [pattern_key]), \<lparr>calls = 2, warnings = []\<rparr>)
   \<and> draftAttempt (example_ctx script_pattern_key) \<lparr>lastErr = None, lastText = None\<rparr>
        \<lparr>calls = 0, warnings = []\<rparr>
     = (Finished (Inr (make_output (example_ctx script_pattern_key) (filler 75))),
        \<lparr>calls = 3, warnings = []\<rparr>)"
  by code_simp

subsection \<open>After the last draft attempt\<close>

lemma hardGate_nonempty: "hardGate c t = Inr () \<Longrightarrow> t \<noteq> []"
  by (auto simp: hardGate_def validateText_def trim_def Let_def)

lemma catchDraft_Continue_lastErr:
  "catchDraft c mem t e fx = (Continue mem', fx') \<Longrightarrow> lastErr mem' \<noteq> None"
  by (auto simp: catchDraft_def Let_def split: prod.splits sum.splits if_splits)

lemma draftAttempt_Continue_lastErr:
  "draftAttempt c mem fx = (Continue mem', fx') \<Longrightarrow> lastErr mem' \<noteq> None"
  by (auto simp: draftAttempt_def split: prod.splits reply.splits try_result.splits
      dest: catchDraft_Continue_lastErr)

lemma draftAttempts_Continue_lastErr:
  "draftAttempts c n mem fx = (Continue mem', fx') \<Longrightarrow> lastErr mem \<noteq> None \<or> 0 < n \<Longrightarrow>
     lastErr mem' \<noteq> None"
proof (induction n arbitrary: mem fx)
  case 0
  then show ?case by simp
next
  case (Suc n)
  from Suc.prems(1) obtain mem1 fx1 where
    step: "draftAttempt c mem fx = (Continue mem1, fx1)"
    and rest: "draftAttempts c n mem1 fx1 = (Continue mem', fx')"
    by (auto split: prod.splits attempt_result.splits)
  from draftAttempt_Continue_lastErr [OF step] Suc.IH [OF rest] show ?case by simp
qed

lemma finalFallback_in_band:
  assumes "lastText mem = Some lt" "hardGate c lt = Inr ()"
    "TARGET_MIN \<le> wordCount lt" "wordCount lt \<le> TARGET_MAX"
  shows "finalFallback c mem fx =
     (Inr (make_output c lt), fx\<lparr>warnings := warnings fx @ [fallback_warning mem]\<rparr>)"
  using assms hardGate_nonempty [OF assms(2)]
  by (simp add: finalFallback_def Let_def)

lemma finalFallback_repaired:
  assumes "lastText mem = Some lt" "hardGate c lt = Inr ()"
    "wordCount lt < TARGET_MIN \<or> TARGET_MAX < wordCount lt"
    "ollamaChat (env c) (calls fx) = Content raw"
    "parseJsonOnly (syntaxErrorMessage (env c)) raw = Inr rt"
    "hardGate c rt = Inr ()"
  shows "finalFallback c mem fx = (Inr (make_output c rt), fx\<lparr>calls := calls fx + 1\<rparr>)"
  using assms hardGate_nonempty [OF assms(2)]
  by (auto simp: finalFallback_def Let_def microRepairForLength_def call_generator_def)

lemma finalFallback_exhausted:
  assumes "lastText mem = None \<or> (\<exists>lt err. lastText mem = Some lt \<and> hardGate c lt = Inl err)"
  shows "finalFallback c mem fx = (Inl (GenerationExhausted (lastErr mem)), fx)"
  using assms by (auto simp: finalFallback_def Let_def)

text \<open>
  Claim C2, as amended. Let all draft attempts be exhausted. If the last recorded text
  passes the hard gate and its word count is inside the target band, it is returned as
  it is, with a warning and without another generator call. If it passes the hard gate
  and lies outside the band, one micro-repair call is made, and when its reply parses to
  a text that passes the hard gate, that text is returned. If no text was recorded, or
  the last recorded text fails the hard gate, the operation fails with the error of
  exhaustion, which carries the last recorded error; an error has always been recorded
  by then.
\<close>

theorem generateCardMessage_exhausted:
  assumes "roleFromIdKey (idKey inp) = Inr role"
    and "loadMajorMeaning e (cardId inp) = Inr meaning"
    and "c = build_ctx e inp role meaning"
    and "draftAttempts c MAX_DRAFT_ATTEMPTS \<lparr>lastErr = None, lastText = None\<rparr>
           \<lparr>calls = 0, warnings = []\<rparr> = (Continue mem, fx)"
  shows
    "(lastText mem = Some lt \<and> hardGate c lt = Inr ()
        \<and> TARGET_MIN \<le> wordCount lt \<and> wordCount lt \<le> TARGET_MAX \<longrightarrow>
      generateCardMessage e inp =
        (Inr (make_output c lt), fx\<lparr>warnings := warnings fx @ [fallback_warning mem]\<rparr>))
     \<and> (lastText mem = Some lt \<and> hardGate c lt = Inr ()
          \<and> (wordCount lt < TARGET_MIN \<or> TARGET_MAX < wordCount lt)
          \<and> ollamaChat e (calls fx) = Content raw
          \<and> parseJsonOnly (syntaxErrorMessage e) raw = Inr rt
          \<and> hardGate c rt = Inr () \<longrightarrow>
        generateCardMessage e inp = (Inr (make_output c rt), fx\<lparr>calls := calls fx + 1\<rparr>))
     \<and> (lastText mem = None \<or> (\<exists>lt err. lastText mem = Some lt \<and> hardGate c lt = Inl err) \<longrightarrow>
        generateCardMessage e inp = (Inl (GenerationExhausted (lastErr mem)), fx))
     \<and> (\<exists>m. lastErr mem = Some m)"
proof -
  have run: "generateCardMessage e inp = finalFallback c mem fx"
    unfolding generateCardMessage_loop [OF assms(1,2)] assms(3) [symmetric] assms(4) by simp
  have env: "env c = e" by (simp add: assms(3) build_ctx_def)
  have "lastErr mem \<noteq> None"
    using draftAttempts_Continue_lastErr [OF assms(4)] by (simp add: MAX_DRAFT_ATTEMPTS_def)
  then have recorded: "\<exists>m. lastErr mem = Some m" by auto
  show ?thesis
    unfolding run
    using finalFallback_in_band [of mem lt c fx] finalFallback_repaired [of mem lt c fx raw rt]
      finalFallback_exhausted [of mem c fx] recorded
    by (simp only: env) blast
qed

theorem generateCardMessage_exhausted_witness:
  "hardGate (example_ctx script_valid_in_band) (filler 95) = Inr ()
   \<and> TARGET_MIN \<le> wordCount (filler 95) \<and> wordCount (filler 95) \<le> TARGET_MAX
   \<and> generateCardMessage
        (example_environment script_valid_in_band (str ''2025-01-01T00:00:00.000Z''))
        example_input
     = (Inr (make_output (example_ctx script_valid_in_band) (filler 95)),
        \<lparr>calls = 5,
         warnings = [str ''Returning mechanically-valid fallback. Last error: Model did not return JSON. Got: no json...'']\<rparr>)"
proof -
  let ?e = "example_environment script_valid_in_band (str ''2025-01-01T00:00:00.000Z'')"
  let ?c = "example_ctx script_valid_in_band"
  let ?mem = "\<lparr>lastErr = Some (str ''Model did not return JSON. Got: no json...''),
               lastText = Some (filler 95)\<rparr>"
  let ?fx = "\<lparr>calls = 5, warnings = []\<rparr>"
  have r: "roleFromIdKey (idKey example_input) = Inr Past" by code_simp
  have m: "loadMajorMeaning ?e (cardId example_input) = Inr example_meaning"
    by (simp add: example_environment_def)
  have c: "?c = build_ctx ?e example_input Past example_meaning"
    by (simp add: example_ctx_def)
  have x: "draftAttempts ?c MAX_DRAFT_ATTEMPTS \<lparr>lastErr = None, lastText = None\<rparr>
             \<lparr>calls = 0, warnings = []\<rparr> = (Continue ?mem, ?fx)"
    by code_simp
  have g: "hardGate ?c (filler 95) = Inr ()" by code_simp
  have b: "TARGET_MIN \<le> wordCount (filler 95)" "wordCount (filler 95) \<le> TARGET_MAX"
    by code_simp+
  have w: "?fx\<lparr>warnings := warnings ?fx @ [fallback_warning ?mem]\<rparr>
      = \<lparr>calls = 5,
         warnings = [str ''Returning mechanically-valid fallback. Last error: Model did not return JSON. Got: no json...'']\<rparr>"
    by code_simp
  have "generateCardMessage ?e example_input =
      (Inr (make_output ?c (filler 95)), ?fx\<lparr>warnings := warnings ?fx @ [fallback_warning ?mem]\<rparr>)"
    using generateCardMessage_exhausted [OF r m c x, THEN conjunct1, rule_format, of "filler 95"]
      g b by simp
  then show ?thesis unfolding w using g b by simp
qed

text \<open>
  The claim as stated returns a result whenever some text that passes the hard gate was
  seen in the run. Here the first draft passes the hard gate; the texts recorded later
  do not, and the run ends with the error of exhaustion.
\<close>

theorem generateCardMessage_exhausted_counterexample:
  "script_valid_then_short 0 = Content (json_reply (filler 75))
   \<and> parseJsonOnly (\<lambda>s. str ''Unexpected token'') (json_reply (filler 75)) = Inr (filler 75)
   \<and> hardGate (example_ctx script_valid_then_short) (filler 75) = Inr ()
   \<and> generateCardMessage
        (example_environment script_valid_then_short (str ''2025-01-01T00:00:00.000Z''))
        example_input
     = (Inl (GenerationExhausted (Some (str ''Model did not return JSON. Got: no json...''))),
        \<lparr>calls = 6, warnings = []\<rparr>)"
  by code_simp

section \<open>Properties of the padding\<close>

lemma split_ws_not_Nil: "split_ws s \<noteq> []"
  by (induction s) (auto split: list.splits)

lemma hd_split_ws_Nil: "hd (split_ws s) = [] \<longleftrightarrow> starts_blank s"
proof (induction s)
  case Nil
  show ?case by (simp add: starts_blank_def)
next
  case (Cons c cs)
  show ?case
  proof (cases "is_ws c")
    case True
    with Cons show ?thesis by (auto simp: starts_blank_def)
  next
    case False
    then show ?thesis by (auto simp: starts_blank_def split: list.splits)
  qed
qed

lemma count_words_Nil: "count_words [] = 0"
  by (simp add: count_words_def filter_Boolean_def)

lemma count_words_Cons:
  "count_words (c # cs) =
     (if is_ws c then count_words cs
      else if starts_blank cs then Suc (count_words cs) else count_words cs)"
proof (cases "is_ws c")
  case True
  then show ?thesis by (simp add: count_words_def filter_Boolean_def)
next
  case False
  obtain w ws where s: "split_ws cs = w # ws"
    using split_ws_not_Nil [of cs] by (cases "split_ws cs") auto
  have "w = [] \<longleftrightarrow> starts_blank cs"
    using hd_split_ws_Nil [of cs] by (simp add: s)
  with False s show ?thesis by (simp add: count_words_def filter_Boolean_def)
qed

lemma count_words_dropWhile: "count_words (dropWhile is_ws s) = count_words s"
  by (induction s) (simp_all add: count_words_Cons)

lemma starts_blank_append: "a \<noteq> [] \<Longrightarrow> starts_blank (a @ b) = starts_blank a"
  by (cases a) (simp_all add: starts_blank_def)

lemma count_words_append_ws:
  "is_ws c \<Longrightarrow> count_words (a @ c # b) = count_words a + count_words b"
proof (induction a)
  case Nil
  then show ?case by (simp add: count_words_Cons count_words_Nil)
next
  case (Cons x a)
  show ?case
  proof (cases "a = []")
    case True
    with Cons.prems show ?thesis
      by (simp add: count_words_Cons count_words_Nil starts_blank_def)
  next
    case False
    then have "starts_blank (a @ c # b) = starts_blank a" by (rule starts_blank_append)
    with Cons show ?thesis by (simp add: count_words_Cons)
  qed
qed

lemma count_words_all_ws: "\<forall>c\<in>set s. is_ws c \<Longrightarrow> count_words s = 0"
  by (induction s) (simp_all add: count_words_Cons count_words_Nil)

lemma count_words_append_all_ws:
  assumes "\<forall>c\<in>set q. is_ws c"
  shows "count_words (p @ q) = count_words p"
proof (cases q)
  case Nil
  then show ?thesis by simp
next
  case (Cons c q')
  with assms have "is_ws c" "\<forall>c\<in>set q'. is_ws c" by simp_all
  then show ?thesis
    by (simp add: Cons count_words_append_ws count_words_all_ws)
qed

lemma split_at_end:
  "s = rev (dropWhile P (rev s)) @ rev (takeWhile P (rev s))"
  by (metis rev_append rev_rev_ident takeWhile_dropWhile_id)

lemma count_words_strip_end:
  "count_words (rev (dropWhile is_ws (rev s))) = count_words s"
proof -
  have "\<forall>c\<in>set (rev (takeWhile is_ws (rev s))). is_ws c"
    by (auto dest: set_takeWhileD)
  from count_words_append_all_ws [OF this, of "rev (dropWhile is_ws (rev s))"]
  show ?thesis using split_at_end [of s is_ws] by simp
qed

lemma count_words_trim: "count_words (trim s) = count_words s"
  by (simp add: trim_def count_words_strip_end count_words_dropWhile)

lemma wordCount_count_words: "wordCount t = count_words t"
  using count_words_trim [of t] by (simp add: wordCount_def count_words_def)

lemma count_words_no_ws: "\<forall>c\<in>set q. \<not> is_ws c \<Longrightarrow> count_words q \<le> 1"
proof (induction q)
  case Nil
  show ?case by (simp add: count_words_Nil)
next
  case (Cons c q)
  then show ?case
    by (cases q) (simp_all add: count_words_Cons count_words_Nil starts_blank_def)
qed

lemma count_words_starts_word: "\<not> starts_blank s \<Longrightarrow> 1 \<le> count_words s"
proof (induction s)
  case Nil
  then show ?case by (simp add: starts_blank_def)
next
  case (Cons c cs)
  then have "\<not> is_ws c" by (simp add: starts_blank_def)
  with Cons.IH show ?case by (simp add: count_words_Cons)
qed

lemma count_words_append_ge: "count_words a \<le> count_words (a @ b)"
proof (induction a)
  case Nil
  show ?case by (simp add: count_words_Nil)
next
  case (Cons x a)
  show ?case
  proof (cases "a = []")
    case True
    then show ?thesis
      using count_words_starts_word [of b]
      by (simp add: count_words_Cons count_words_Nil starts_blank_def)
  next
    case False
    then have "starts_blank (a @ b) = starts_blank a" by (rule starts_blank_append)
    with Cons show ?thesis by (simp add: count_words_Cons)
  qed
qed

lemma count_words_append_no_ws:
  assumes "\<forall>c\<in>set q. \<not> is_ws c"
  shows "count_words (p @ q) \<le> Suc (count_words p)"
proof (induction p)
  case Nil
  show ?case using count_words_no_ws [OF assms] by simp
next
  case (Cons x p)
  show ?case
  proof (cases "p = []")
    case True
    then show ?thesis
      using count_words_no_ws [OF assms]
      by (simp add: count_words_Cons count_words_Nil starts_blank_def)
  next
    case False
    then have "starts_blank (p @ q) = starts_blank p" by (rule starts_blank_append)
    with Cons show ?thesis by (simp add: count_words_Cons)
  qed
qed

lemma starts_blank_collapse: "starts_blank (collapse_ws_from False s) = starts_blank s"
  by (cases s) (simp_all add: starts_blank_def is_ws_def)

lemma count_words_collapse_from: "count_words (collapse_ws_from b s) = count_words s"
proof (induction s arbitrary: b)
  case Nil
  show ?case by simp
next
  case (Cons c cs)
  have "is_ws 32" by (simp add: is_ws_def)
  then show ?case
    by (simp add: count_words_Cons Cons starts_blank_collapse)
qed

lemma count_words_collapse: "count_words (collapse_ws s) = count_words s"
  by (simp add: collapse_ws_def count_words_collapse_from)

lemma count_words_join:
  "count_words (join (str '' '') xs) = sum_list (map count_words xs)"
proof (induction xs rule: induct_list012)
  case 1
  show ?case by (simp add: count_words_Nil)
next
  case (2 x)
  show ?case by simp
next
  case (3 x y zs)
  have "is_ws 32" by (simp add: is_ws_def)
  from count_words_append_ws [OF this, of x "join (str '' '') (y # zs)"] 3
  show ?case by (simp add: str_def)
qed

lemma split_sentences_from_not_Nil: "split_sentences_from m t \<noteq> []"
  by (induction t arbitrary: m) (auto split: list.splits)

lemma starts_blank_first_sentence:
  "m \<noteq> InSeparator \<Longrightarrow> starts_blank (hd (split_sentences_from m t)) = starts_blank t"
  by (cases t) (auto simp: starts_blank_def split: list.splits)

lemma sum_count_words_sentences:
  "sum_list (map count_words (split_sentences_from m t)) = count_words t"
proof (induction t arbitrary: m)
  case Nil
  show ?case by (simp add: count_words_Nil)
next
  case (Cons c cs)
  show ?case
  proof (cases "is_ws c \<and> (m = AfterTerminal \<or> m = InSeparator)")
    case True
    then show ?thesis
      using Cons [of InSeparator] by (auto simp: count_words_Cons count_words_Nil)
  next
    case False
    define m' where "m' = (if is_terminal c then AfterTerminal else Plain)"
    have m': "m' \<noteq> InSeparator" by (simp add: m'_def)
    obtain w ws where s: "split_sentences_from m' cs = w # ws"
      using split_sentences_from_not_Nil [of m' cs] by (cases "split_sentences_from m' cs") auto
    have blank: "starts_blank w = starts_blank cs"
      using starts_blank_first_sentence [OF m', of cs] by (simp add: s)
    have ih: "count_words w + sum_list (map count_words ws) = count_words cs"
      using Cons [of m'] by (simp add: s)
    have "split_sentences_from m (c # cs) = (c # w) # ws"
      using False s by (auto simp: m'_def)
    then show ?thesis
      using ih blank by (simp add: count_words_Cons)
  qed
qed

lemma sum_count_words_filter:
  "sum_list (map count_words (filter_Boolean xs)) = sum_list (map count_words xs)"
  by (induction xs) (simp_all add: filter_Boolean_def count_words_Nil)

lemma sum_count_words_pad_sentences:
  "sum_list (map count_words (pad_sentences t)) = count_words t"
proof -
  have "count_words \<circ> trim = count_words"
    by (rule ext) (simp add: count_words_trim)
  then show ?thesis
    by (simp add: pad_sentences_def sum_count_words_filter split_sentences_def
        sum_count_words_sentences)
qed

lemma terminal_not_ws: "is_terminal c \<Longrightarrow> \<not> is_ws c"
  by (auto simp: is_terminal_def is_ws_def)

lemma count_words_strip_terminal_end:
  "count_words s \<le> Suc (count_words (strip_terminal_end s))"
proof -
  have "\<forall>c\<in>set (rev (takeWhile is_terminal (rev s))). \<not> is_ws c"
    by (auto dest!: set_takeWhileD terminal_not_ws)
  from count_words_append_no_ws [OF this, of "rev (dropWhile is_terminal (rev s))"]
  show ?thesis
    using split_at_end [of s is_terminal] by (simp add: strip_terminal_end_def)
qed

lemma sum_list_map_update:
  "i < length xs \<Longrightarrow>
     sum_list (map f (xs[i := y])) + f (xs ! i) = sum_list (map f xs) + (f y :: nat)"
proof (induction xs arbitrary: i)
  case Nil
  then show ?case by simp
next
  case (Cons x xs)
  then show ?case by (cases i) auto
qed

lemma count_words_rolePhrase: "3 \<le> count_words (rolePhrase role a b c h)"
  by (cases role)
     (simp_all add: rolePhrase_def str_def count_words_Cons starts_blank_def is_ws_def)

lemma count_words_padded_sentence3:
  "count_words (strip_terminal_end s3) + 3 \<le> count_words (padded_sentence3 s3 role ths intention)"
proof -
  define a where "a = nth_or (take 3 ths) 0 (str ''trust'')"
  define b where "b = nth_or (take 3 ths) 1 (str ''focus'')"
  define c where "c = nth_or (take 3 ths) 2 (str ''openness'')"
  define joined where
    "joined = join (str '' '') (take 2 (filter (\<lambda>t. t \<notin> set STOP_WORDS) (normalizeTokens intention)))"
  define h where "h = (if joined = [] then str ''intention'' else joined)"
  define body where
    "body = strip_terminal_end s3 @ 32 # rolePhrase role a b c h @ 32 # extra_clause role"
  have padded: "padded_sentence3 s3 role ths intention = trim (collapse_ws body) @ [46]"
    by (simp add: padded_sentence3_def Let_def a_def b_def c_def joined_def h_def body_def str_def)
  have ws: "is_ws 32" by (simp add: is_ws_def)
  have "count_words body
      = count_words (strip_terminal_end s3) + (count_words (rolePhrase role a b c h)
          + count_words (extra_clause role))"
    unfolding body_def by (simp only: count_words_append_ws [OF ws])
  then have "count_words (strip_terminal_end s3) + 3 \<le> count_words body"
    using count_words_rolePhrase [of role a b c h] by simp
  also have "count_words body = count_words (trim (collapse_ws body))"
    by (simp add: count_words_trim count_words_collapse)
  also have "\<dots> \<le> count_words (trim (collapse_ws body) @ [46])"
    by (rule count_words_append_ge)
  finally show ?thesis by (simp add: padded)
qed

text \<open>
  Claim C8. Let the word count of a text be below the minimum. If the text splits into
  fewer than three sentences, \<open>padSentence3ToMinWords\<close> returns it unchanged. Otherwise
  the result is the sentences joined by single spaces, the third one replaced by itself
  (without its final terminal marks) followed by the clause of the role; the clause is
  built from the first three themes at most and the first two content tokens of the
  intention at most; and the result has strictly more words than the input. The
  function takes no environment: it makes no generator call.
\<close>

theorem padSentence3ToMinWords_adds_words:
  assumes "wordCount t < minW"
  shows "(length (pad_sentences t) < 3 \<longrightarrow>
            padSentence3ToMinWords t role ths intention minW = t)
         \<and> (3 \<le> length (pad_sentences t) \<longrightarrow>
              padSentence3ToMinWords t role ths intention minW
                = join (str '' '')
                    ((pad_sentences t)[2 := padded_sentence3 (pad_sentences t ! 2) role ths intention])
              \<and> wordCount t < wordCount (padSentence3ToMinWords t role ths intention minW))
         \<and> (take 3 ths' = take 3 ths
              \<and> take 2 (filter (\<lambda>t. t \<notin> set STOP_WORDS) (normalizeTokens intention'))
                  = take 2 (filter (\<lambda>t. t \<notin> set STOP_WORDS) (normalizeTokens intention)) \<longrightarrow>
              padSentence3ToMinWords t role ths' intention' minW
                = padSentence3ToMinWords t role ths intention minW)"
proof (intro conjI impI)
  assume "length (pad_sentences t) < 3"
  with assms show "padSentence3ToMinWords t role ths intention minW = t"
    by (simp add: padSentence3ToMinWords_def Let_def)
next
  assume three: "3 \<le> length (pad_sentences t)"
  let ?ss = "pad_sentences t"
  let ?new = "padded_sentence3 (?ss ! 2) role ths intention"
  show result: "padSentence3ToMinWords t role ths intention minW = join (str '' '') (?ss[2 := ?new])"
    using assms three by (simp add: padSentence3ToMinWords_def Let_def)
  have "sum_list (map count_words (?ss[2 := ?new])) + count_words (?ss ! 2)
      = sum_list (map count_words ?ss) + count_words ?new"
    using three by (intro sum_list_map_update) simp
  moreover have "count_words (?ss ! 2) \<le> Suc (count_words (strip_terminal_end (?ss ! 2)))"
    by (rule count_words_strip_terminal_end)
  moreover have "count_words (strip_terminal_end (?ss ! 2)) + 3 \<le> count_words ?new"
    by (rule count_words_padded_sentence3)
  ultimately have "sum_list (map count_words ?ss) < sum_list (map count_words (?ss[2 := ?new]))"
    by linarith
  then show "wordCount t < wordCount (padSentence3ToMinWords t role ths intention minW)"
    by (simp add: result wordCount_count_words count_words_join sum_count_words_pad_sentences)
next
  assume "take 3 ths' = take 3 ths
      \<and> take 2 (filter (\<lambda>t. t \<notin> set STOP_WORDS) (normalizeTokens intention'))
          = take 2 (filter (\<lambda>t. t \<notin> set STOP_WORDS) (normalizeTokens intention))"
  then have "padded_sentence3 s role ths' intention' = padded_sentence3 s role ths intention" for s
    by (simp add: padded_sentence3_def Let_def)
  then show "padSentence3ToMinWords t role ths' intention' minW
                = padSentence3ToMinWords t role ths intention minW"
    by (simp add: padSentence3ToMinWords_def Let_def)
qed

theorem padSentence3ToMinWords_adds_words_witness:
  "wordCount (str ''One is.  Two are! Three were? Four.'') < 75
   \<and> 3 \<le> length (pad_sentences (str ''One is.  Two are! Three were? Four.''))
   \<and> padSentence3ToMinWords (str ''One is.  Two are! Three were? Four.'') Present [str ''joy'']
        (str ''Where am I on my spiritual journey?'') 75
     = str ''One is. Two are! Three were In this season, joy and focus steady you, and openness stays honest inside your spiritual journey. It shapes how you choose even without certainty.. Four.''
   \<and> wordCount (str ''One is.  Two are! Three were? Four.'')
       < wordCount (padSentence3ToMinWords (str ''One is.  Two are! Three were? Four.'') Present
           [str ''joy''] (str ''Where am I on my spiritual journey?'') 75)"
proof -
  let ?t = "str ''One is.  Two are! Three were? Four.''"
  have a: "wordCount ?t < 75" by code_simp
  have b: "3 \<le> length (pad_sentences ?t)" by code_simp
  have c: "padSentence3ToMinWords ?t Present [str ''joy'']
        (str ''Where am I on my spiritual journey?'') 75
     = str ''One is. Two are! Three were In this season, joy and focus steady you, and openness stays honest inside your spiritual journey. It shapes how you choose even without certainty.. Four.''"
    by code_simp
  have "wordCount ?t < wordCount (padSentence3ToMinWords ?t Present [str ''joy'']
           (str ''Where am I on my spiritual journey?'') 75)"
    using padSentence3ToMinWords_adds_words [OF a, of Present "[str ''joy'']"
        "str ''Where am I on my spiritual journey?''", THEN conjunct2, THEN conjunct1,
        rule_format, OF b]
    by (rule conjunct2)
  with a b c show ?thesis by blast
qed

end
